theory Spec2Isabelle
  imports Main
begin

section \<open>JavaScript values, strings and outcomes\<close>

text \<open>
  The engine passes untyped JavaScript values around. The values that the rule engine
  inspects are modelled by a datatype; numbers are restricted to integers. Strings are
  lists of 8-bit characters; non-ASCII literals of the source are written as their UTF-8
  bytes, and the white space recognised by \<open>trim\<close> and \<open>\s\<close> is the ASCII white space.
\<close>

datatype jsval =
    JNull
  | JUndefined
  | JBool bool
  | JNum int
  | JStr string
  | JArr "jsval list"
  | JObj "(string \<times> jsval) list"

text \<open>\<open>isEmpty\<close> of \<open>types.js\<close>.\<close>

fun isEmpty :: "jsval \<Rightarrow> bool" where
  "isEmpty JNull = True"
| "isEmpty JUndefined = True"
| "isEmpty (JStr s) = (s = [])"
| "isEmpty (JArr xs) = (xs = [])"
| "isEmpty (JObj kvs) = (kvs = [])"
| "isEmpty (JBool b) = False"
| "isEmpty (JNum n) = False"

text \<open>JavaScript truthiness, as used by \<open>x || null\<close>.\<close>

fun truthy :: "jsval \<Rightarrow> bool" where
  "truthy JNull = False"
| "truthy JUndefined = False"
| "truthy (JBool b) = b"
| "truthy (JNum n) = (n \<noteq> 0)"
| "truthy (JStr s) = (s \<noteq> [])"
| "truthy (JArr xs) = True"
| "truthy (JObj kvs) = True"

subsection \<open>String primitives\<close>

definition is_ws :: "char \<Rightarrow> bool" where
  "is_ws c = (c = CHR 0x20 \<or> c = CHR 0x09 \<or> c = CHR 0x0A \<or> c = CHR 0x0B
      \<or> c = CHR 0x0C \<or> c = CHR 0x0D)"

definition trimStart :: "string \<Rightarrow> string" where
  "trimStart s = dropWhile is_ws s"

definition trimEnd :: "string \<Rightarrow> string" where
  "trimEnd s = rev (dropWhile is_ws (rev s))"

definition trim :: "string \<Rightarrow> string" where
  "trim s = trimEnd (trimStart s)"

fun startsWith :: "string \<Rightarrow> string \<Rightarrow> bool" where
  "startsWith [] s = True"
| "startsWith (p # ps) [] = False"
| "startsWith (p # ps) (c # cs) = (p = c \<and> startsWith ps cs)"

definition endsWith :: "string \<Rightarrow> string \<Rightarrow> bool" where
  "endsWith p s = startsWith (rev p) (rev s)"

fun includes_str :: "string \<Rightarrow> string \<Rightarrow> bool" where
  "includes_str p [] = (p = [])"
| "includes_str p (c # cs) = (startsWith p (c # cs) \<or> includes_str p cs)"

fun join :: "string \<Rightarrow> string list \<Rightarrow> string" where
  "join sep [] = []"
| "join sep [x] = x"
| "join sep (x # y # ys) = x @ sep @ join sep (y # ys)"

text \<open>\<open>s.split('##')\<close>: the pieces between the occurrences of the separator, scanned
  from the left.\<close>

fun split_hash :: "string \<Rightarrow> string \<Rightarrow> string list" where
  "split_hash cur [] = [cur]"
| "split_hash cur [c] = [cur @ [c]]"
| "split_hash cur (c # d # cs) =
     (if c = CHR ''#'' \<and> d = CHR ''#'' then cur # split_hash [] cs
      else split_hash (cur @ [c]) (d # cs))"

definition digit_char :: "nat \<Rightarrow> char" where
  "digit_char d = ''0123456789'' ! d"

text \<open>Decimal digits of a number, least significant digit first into the accumulator.\<close>

fun nat_digits :: "nat \<Rightarrow> string \<Rightarrow> string" where
  "nat_digits n acc =
     (if n < 10 then digit_char n # acc
      else nat_digits (n div 10) (digit_char (n mod 10) # acc))"

definition show_nat :: "nat \<Rightarrow> string" where
  "show_nat n = nat_digits n []"

definition show_int :: "int \<Rightarrow> string" where
  "show_int i = (if 0 \<le> i then show_nat (nat i) else CHR ''-'' # show_nat (nat (- i)))"

text \<open>\<open>String(v)\<close>; an array is joined with commas, \<open>null\<close> and \<open>undefined\<close> elements
  giving the empty string.\<close>

fun js_String :: "jsval \<Rightarrow> string" where
  "js_String JNull = ''null''"
| "js_String JUndefined = ''undefined''"
| "js_String (JBool b) = (if b then ''true'' else ''false'')"
| "js_String (JNum n) = show_int n"
| "js_String (JStr s) = s"
| "js_String (JArr xs) =
     join '','' (map (\<lambda>x. if x = JNull \<or> x = JUndefined then [] else js_String x) xs)"
| "js_String (JObj kvs) = ''[object Object]''"

subsection \<open>Exceptions\<close>

datatype exn =
    Error string
  | TypeError string
  | SyntaxError string
  | RuleParseError string string string exn

fun message :: "exn \<Rightarrow> string" where
  "message (Error m) = m"
| "message (TypeError m) = m"
| "message (SyntaxError m) = m"
| "message (RuleParseError m r s e) = m"

definition msg_rule_empty :: string where
  \<comment> \<open>UTF-8 bytes of the source literal\<close>
  "msg_rule_empty = [CHR 0xE8, CHR 0xA7, CHR 0x84, CHR 0xE5, CHR 0x88, CHR 0x99, CHR 0xE4, CHR 0xB8, CHR 0x8D, CHR 0xE8, CHR 0x83, CHR 0xBD, CHR 0xE4, CHR 0xB8, CHR 0xBA, CHR 0xE7, CHR 0xA9, CHR 0xBA]"

definition msg_all_failed :: string where
  \<comment> \<open>UTF-8 bytes of the source literal\<close>
  "msg_all_failed = [CHR 0xE6, CHR 0x89, CHR 0x80, CHR 0xE6, CHR 0x9C, CHR 0x89, CHR 0xE9, CHR 0x80, CHR 0x89, CHR 0xE6, CHR 0x8B, CHR 0xA9, CHR 0xE5, CHR 0x99, CHR 0xA8, CHR 0xE9, CHR 0x83, CHR 0xBD, CHR 0xE5, CHR 0xA4, CHR 0xB1, CHR 0xE8, CHR 0xB4, CHR 0xA5] @ '': ''"

definition msg_all_failed_last :: string where
  \<comment> \<open>UTF-8 bytes of the source literal\<close>
  "msg_all_failed_last = [CHR 0xE6, CHR 0x89, CHR 0x80, CHR 0xE6, CHR 0x9C, CHR 0x89, CHR 0xE9, CHR 0x80, CHR 0x89, CHR 0xE6, CHR 0x8B, CHR 0xA9, CHR 0xE5, CHR 0x99, CHR 0xA8, CHR 0xE9, CHR 0x83, CHR 0xBD, CHR 0xE5, CHR 0xA4, CHR 0xB1, CHR 0xE8, CHR 0xB4, CHR 0xA5, CHR 0xEF, CHR 0xBC, CHR 0x8C, CHR 0xE6, CHR 0x9C, CHR 0x80, CHR 0xE5, CHR 0x90, CHR 0x8E, CHR 0xE5, CHR 0x85, CHR 0x9C, CHR 0xE5, CHR 0xBA, CHR 0x95, CHR 0xE4, CHR 0xB9, CHR 0x9F, CHR 0xE5, CHR 0xA4, CHR 0xB1, CHR 0xE8, CHR 0xB4, CHR 0xA5] @ '': ''"

definition msg_illegal_and :: string where
  \<comment> \<open>UTF-8 bytes of the source literal\<close>
  "msg_illegal_and = [CHR 0xE9, CHR 0x9D, CHR 0x9E, CHR 0xE6, CHR 0xB3, CHR 0x95, CHR 0xE6, CHR 0x93, CHR 0x8D, CHR 0xE4, CHR 0xBD, CHR 0x9C, CHR 0xE7, CHR 0xAC, CHR 0xA6] @ '' '' @ [CHR 0x22] @ ''&&'' @ [CHR 0x22, CHR 0xEF, CHR 0xBC, CHR 0x9A, CHR 0xE5, CHR 0xBF, CHR 0x85, CHR 0xE9, CHR 0xA1, CHR 0xBB, CHR 0xE4, CHR 0xBD, CHR 0xBF, CHR 0xE7, CHR 0x94, CHR 0xA8, CHR 0xE5, CHR 0x8D, CHR 0x95, CHR 0xE4, CHR 0xB8, CHR 0xAA, CHR 0xE7, CHR 0xA9, CHR 0xBA, CHR 0xE6, CHR 0xA0, CHR 0xBC, CHR 0xE5, CHR 0x8C, CHR 0x85, CHR 0xE8, CHR 0xA3, CHR 0xB9, CHR 0xE7, CHR 0x9A, CHR 0x84] @ '' '' @ [CHR 0x22] @ '' && '' @ [CHR 0x22]"

definition msg_empty_segment :: string where
  \<comment> \<open>UTF-8 bytes of the source literal\<close>
  "msg_empty_segment = [CHR 0xE8, CHR 0xAF, CHR 0xAD, CHR 0xE6, CHR 0xB3, CHR 0x95, CHR 0xE9, CHR 0x94, CHR 0x99, CHR 0xE8, CHR 0xAF, CHR 0xAF, CHR 0xEF, CHR 0xBC, CHR 0x9A, CHR 0xE6, CHR 0x8B, CHR 0xBC, CHR 0xE6, CHR 0x8E, CHR 0xA5, CHR 0xE7, CHR 0xAC, CHR 0xA6] @ '' '' @ [CHR 0x22] @ '' && '' @ [CHR 0x22] @ '' '' @ [CHR 0xE4, CHR 0xB8, CHR 0xA4, CHR 0xE4, CHR 0xBE, CHR 0xA7, CHR 0xE4, CHR 0xB8, CHR 0x8D, CHR 0xE8, CHR 0x83, CHR 0xBD, CHR 0xE4, CHR 0xB8, CHR 0xBA, CHR 0xE7, CHR 0xA9, CHR 0xBA]"

definition msg_bad_clean_format :: string where
  \<comment> \<open>UTF-8 bytes of the source literal\<close>
  "msg_bad_clean_format = [CHR 0xE6, CHR 0x97, CHR 0xA0, CHR 0xE6, CHR 0x95, CHR 0x88, CHR 0xE7, CHR 0x9A, CHR 0x84, CHR 0xE5, CHR 0x87, CHR 0x80, CHR 0xE5, CHR 0x8C, CHR 0x96, CHR 0xE8, CHR 0xA7, CHR 0x84, CHR 0xE5, CHR 0x88, CHR 0x99, CHR 0xE6, CHR 0xA0, CHR 0xBC, CHR 0xE5, CHR 0xBC, CHR 0x8F]"

definition msg_parse_failed :: string where
  \<comment> \<open>UTF-8 bytes of the source literal\<close>
  "msg_parse_failed = [CHR 0xE8, CHR 0xA7, CHR 0x84, CHR 0xE5, CHR 0x88, CHR 0x99, CHR 0xE8, CHR 0xA7, CHR 0xA3, CHR 0xE6, CHR 0x9E, CHR 0x90, CHR 0xE5, CHR 0xA4, CHR 0xB1, CHR 0xE8, CHR 0xB4, CHR 0xA5] @ '': ''"

definition msg_js_disabled :: string where
  \<comment> \<open>UTF-8 bytes of the source literal\<close>
  "msg_js_disabled = ''JavaScript '' @ [CHR 0xE9, CHR 0x80, CHR 0x89, CHR 0xE6, CHR 0x8B, CHR 0xA9, CHR 0xE5, CHR 0x99, CHR 0xA8, CHR 0xE5, CHR 0xB7, CHR 0xB2, CHR 0xE7, CHR 0xA6, CHR 0x81, CHR 0xE7, CHR 0x94, CHR 0xA8]"

definition msg_clean_failed :: string where
  \<comment> \<open>UTF-8 bytes of the source literal\<close>
  "msg_clean_failed = [CHR 0xE6, CHR 0xAD, CHR 0xA3, CHR 0xE5, CHR 0x88, CHR 0x99, CHR 0xE5, CHR 0x87, CHR 0x80, CHR 0xE5, CHR 0x8C, CHR 0x96, CHR 0xE5, CHR 0xA4, CHR 0xB1, CHR 0xE8, CHR 0xB4, CHR 0xA5] @ '': ''"

definition msg_bad_regex :: string where
  \<comment> \<open>UTF-8 bytes of the source literal\<close>
  "msg_bad_regex = [CHR 0xE6, CHR 0x97, CHR 0xA0, CHR 0xE6, CHR 0x95, CHR 0x88, CHR 0xE7, CHR 0x9A, CHR 0x84, CHR 0xE6, CHR 0xAD, CHR 0xA3, CHR 0xE5, CHR 0x88, CHR 0x99, CHR 0xE8, CHR 0xA1, CHR 0xA8, CHR 0xE8, CHR 0xBE, CHR 0xBE, CHR 0xE5, CHR 0xBC, CHR 0x8F] @ '': ''"

definition msg_css_failed :: string where
  \<comment> \<open>UTF-8 bytes of the source literal\<close>
  "msg_css_failed = ''CSS'' @ [CHR 0xE9, CHR 0x80, CHR 0x89, CHR 0xE6, CHR 0x8B, CHR 0xA9, CHR 0xE5, CHR 0x99, CHR 0xA8, CHR 0xE8, CHR 0xA7, CHR 0xA3, CHR 0xE6, CHR 0x9E, CHR 0x90, CHR 0xE5, CHR 0xA4, CHR 0xB1, CHR 0xE8, CHR 0xB4, CHR 0xA5] @ '': ''"

subsection \<open>Outcomes (\<open>ParseResult\<close>)\<close>

text \<open>One entry of the \<open>errors\<close> array kept by the fallback and concatenation operators.\<close>

record attempt =
  a_rule :: string
  a_error :: string
  a_index :: nat

text \<open>A clean rule handed to the batch cleaner: a rule string or a pattern/replacement
  object.\<close>

datatype clean_rule = RuleString string | RulePair string string

text \<open>
  The object every evaluator returns. Fields that an evaluator does not set are \<open>None\<close>
  (\<open>fromCache\<close>: \<open>False\<close>).
\<close>

record outcome =
  success :: bool
  data :: jsval
  rule :: string
  selector :: string
  error :: "string option"
  usedRule :: "string option"
  fallbackIndex :: "nat option"
  errors :: "attempt list option"
  processedCount :: "nat option"
  cleanErrors :: "(clean_rule \<times> string \<times> nat) list option"
  appliedCount :: "nat option"
  originalData :: "jsval option"
  fromCache :: bool

definition mk_outcome :: "bool \<Rightarrow> jsval \<Rightarrow> string \<Rightarrow> string \<Rightarrow> outcome" where
  "mk_outcome s d r sel =
     \<lparr> success = s, data = d, rule = r, selector = sel, error = None, usedRule = None,
       fallbackIndex = None, errors = None, processedCount = None, cleanErrors = None,
       appliedCount = None, originalData = None, fromCache = False \<rparr>"

text \<open>
  A call either runs forever (\<open>None\<close>), throws (\<open>Some (Inl e)\<close>) or returns
  (\<open>Some (Inr v)\<close>).
\<close>

type_synonym 'a res = "(exn + 'a) option"

text \<open>An entry of the \<open>selectors\<close> array: \<open>{ rule, execute }\<close>. The data source and the
  context are JavaScript values; the third argument of \<open>execute\<close>, the options, is read by
  none of the executors that the engines build and is left out.\<close>

record sel =
  s_rule :: string
  execute :: "jsval \<Rightarrow> jsval \<Rightarrow> outcome res"

section \<open>The fallback operator (\<open>operators/fallback.js\<close>)\<close>

definition rule_or_unknown :: "sel \<Rightarrow> string" where
  \<comment> \<open>\<open>selector.rule || 'unknown'\<close>\<close>
  "rule_or_unknown s = (if s_rule s = [] then ''unknown'' else s_rule s)"

definition format_attempt :: "attempt \<Rightarrow> string" where
  \<comment> \<open>\<open>`[${e.index}] ${e.rule}: ${e.error}`\<close>\<close>
  "format_attempt e = ''['' @ show_nat (a_index e) @ ''] '' @ a_rule e @ '': '' @ a_error e"

text \<open>
  The \<open>for\<close> loop of \<open>fallbackOperator\<close>: \<open>Inl\<close> is the early \<open>return\<close> from inside the
  loop, \<open>Inr\<close> the \<open>rules\<close> and \<open>errors\<close> arrays when the loop runs to its end.
\<close>

fun fallback_loop ::
  "sel list \<Rightarrow> jsval \<Rightarrow> jsval \<Rightarrow> nat \<Rightarrow> string list \<Rightarrow> attempt list
    \<Rightarrow> (outcome + string list \<times> attempt list) option" where
  "fallback_loop [] src ctx i rules errs = Some (Inr (rules, errs))"
| "fallback_loop (s # rest) src ctx i rules errs =
     (let rules' = rules @ [rule_or_unknown s] in
      case execute s src ctx of
        None \<Rightarrow> None
      | Some (Inr result) \<Rightarrow>
          if success result \<and> \<not> isEmpty (data result) then
            Some (Inl ((mk_outcome True (data result) (join '' || '' rules') ''fallback'')
                    \<lparr> usedRule := Some (rule_or_unknown s), fallbackIndex := Some i \<rparr>))
          else
            fallback_loop rest src ctx (Suc i) rules'
              (errs @ [\<lparr> a_rule = rule_or_unknown s, a_error = ''empty result'', a_index = i \<rparr>])
      | Some (Inl e) \<Rightarrow>
          fallback_loop rest src ctx (Suc i) rules'
            (errs @ [\<lparr> a_rule = rule_or_unknown s, a_error = message e, a_index = i \<rparr>]))"

definition msg_undefined_execute :: string where
  \<comment> \<open>the message of the \<open>TypeError\<close> raised by \<open>undefined.execute\<close>\<close>
  "msg_undefined_execute =
     ''Cannot read properties of undefined (reading '' @ [CHR 0x27] @ ''execute'' @ [CHR 0x27] @ '')''"

text \<open>
  \<open>fallbackOperator\<close>. After a loop without success the last selector is executed once
  more; on an empty array \<open>lastSelector\<close> is \<open>undefined\<close> and the property access throws
  inside the \<open>try\<close>.
\<close>

definition fallbackOperator :: "sel list \<Rightarrow> jsval \<Rightarrow> jsval \<Rightarrow> outcome option" where
  "fallbackOperator selectors src ctx =
     (case fallback_loop selectors src ctx 0 [] [] of
        None \<Rightarrow> None
      | Some (Inl out) \<Rightarrow> Some out
      | Some (Inr (rules, errs)) \<Rightarrow>
          (if selectors = [] then
             Some ((mk_outcome False JNull (join '' || '' rules) ''fallback'')
                     \<lparr> error := Some (msg_all_failed_last @ msg_undefined_execute) \<rparr>)
           else
             let lastSelector = last selectors in
             case execute lastSelector src ctx of
               None \<Rightarrow> None
             | Some (Inr lastResult) \<Rightarrow>
                 Some ((mk_outcome False
                          (if truthy (data lastResult) then data lastResult else JNull)
                          (join '' || '' rules) ''fallback'')
                        \<lparr> error := Some (msg_all_failed @ join ''; '' (map format_attempt errs)),
                          usedRule := Some (rule_or_unknown lastSelector),
                          fallbackIndex := Some (length selectors - 1) \<rparr>)
             | Some (Inl finalError) \<Rightarrow>
                 Some ((mk_outcome False JNull (join '' || '' rules) ''fallback'')
                        \<lparr> error := Some (msg_all_failed_last @ message finalError) \<rparr>)))"

subsection \<open>Vocabulary for statements about the fallback operator\<close>

text \<open>An attempt fails when the call returns without a successful non-empty outcome, or
  throws; a call that does not return is not a failed attempt.\<close>

definition attempt_fails :: "outcome res \<Rightarrow> bool" where
  "attempt_fails x =
     (case x of None \<Rightarrow> False | Some (Inl e) \<Rightarrow> True
      | Some (Inr r) \<Rightarrow> \<not> (success r \<and> \<not> isEmpty (data r)))"

definition attempt_text :: "outcome res \<Rightarrow> string" where
  "attempt_text x = (case x of Some (Inl e) \<Rightarrow> message e | _ \<Rightarrow> ''empty result'')"

text \<open>The diagnostics of a chain in which every attempt failed, numbered from \<open>i\<close>.\<close>

definition failed_attempts :: "nat \<Rightarrow> sel list \<Rightarrow> jsval \<Rightarrow> jsval \<Rightarrow> attempt list" where
  "failed_attempts i selectors src ctx =
     map (\<lambda>(k, s). \<lparr> a_rule = rule_or_unknown s, a_error = attempt_text (execute s src ctx),
                     a_index = k \<rparr>)
       (zip [i ..< i + length selectors] selectors)"

text \<open>Sample selector entries: one that matches nothing, one that throws, one that yields
  a text, one that yields the empty string, and one whose evaluation does not return.\<close>

definition sel_nomatch :: sel where
  "sel_nomatch = \<lparr> s_rule = ''@css:.none'',
     execute = (\<lambda>src ctx. Some (Inr (mk_outcome False JNull ''.none'' ''css''))) \<rparr>"

definition sel_throws :: sel where
  "sel_throws = \<lparr> s_rule = ''@css:['', execute = (\<lambda>src ctx. Some (Inl (Error ''boom''))) \<rparr>"

definition sel_title :: sel where
  "sel_title = \<lparr> s_rule = ''@text:T'',
     execute = (\<lambda>src ctx. Some (Inr (mk_outcome True (JStr ''T'') ''T'' ''text''))) \<rparr>"

definition sel_blank :: sel where
  "sel_blank = \<lparr> s_rule = ''@text:'',
     execute = (\<lambda>src ctx. Some (Inr (mk_outcome True (JStr []) [] ''text''))) \<rparr>"

definition sel_hangs :: sel where
  "sel_hangs = \<lparr> s_rule = ''@js:for(;;){}'', execute = (\<lambda>src ctx. None) \<rparr>"

section \<open>The concatenation operator (\<open>operators/concat.js\<close>)\<close>

text \<open>
  The options object handed to the operators (the engine's \<open>this.options\<close>), with the
  defaults the operators give to the fields they destructure.
\<close>

record options =
  enableJS :: bool
  separator :: string
  ignoreEmpty :: bool
  flags :: string
  caseSensitive :: bool
  multiline :: bool
  dotAll :: bool
  stopOnError :: bool

definition default_options :: options where
  "default_options =
     \<lparr> enableJS = True, separator = [], ignoreEmpty = True, flags = ''g'',
       caseSensitive = False, multiline = False, dotAll = False, stopOnError = False \<rparr>"

text \<open>
  The built-ins of the JavaScript runtime that the operators rely on and that are not
  modelled: \<open>JSON.stringify\<close>, and \<open>new RegExp(pattern, flags)\<close>, which fails on a
  malformed pattern and otherwise gives \<open>text.replace(regex, replacement)\<close> as a function
  of the text and the replacement.
\<close>

record runtime =
  JSON_stringify :: "jsval \<Rightarrow> string"
  RegExp :: "string \<Rightarrow> string \<Rightarrow> (string \<Rightarrow> string \<Rightarrow> string) option"

fun processDataForConcat :: "runtime \<Rightarrow> jsval \<Rightarrow> outcome \<Rightarrow> string" where
  "processDataForConcat rt JNull result = []"
| "processDataForConcat rt JUndefined result = []"
| "processDataForConcat rt (JStr s) result =
     (if selector result = ''text'' then s else trim s)"
| "processDataForConcat rt (JArr []) result = []"
| "processDataForConcat rt (JArr (x # xs)) result =
     (let firstElement = js_String x in
      if selector result = ''text'' then firstElement else trim firstElement)"
| "processDataForConcat rt (JObj kvs) result = JSON_stringify rt (JObj kvs)"
| "processDataForConcat rt (JBool b) result =
     (let stringData = js_String (JBool b) in
      if selector result = ''text'' then stringData else trim stringData)"
| "processDataForConcat rt (JNum n) result =
     (let stringData = js_String (JNum n) in
      if selector result = ''text'' then stringData else trim stringData)"

text \<open>The \<open>for\<close> loop of \<open>concatOperator\<close>, returning \<open>results\<close>, \<open>errors\<close> and \<open>rules\<close>.\<close>

fun concat_loop ::
  "runtime \<Rightarrow> options \<Rightarrow> sel list \<Rightarrow> jsval \<Rightarrow> jsval \<Rightarrow> nat \<Rightarrow> string list \<Rightarrow> attempt list
    \<Rightarrow> string list \<Rightarrow> (string list \<times> attempt list \<times> string list) option" where
  "concat_loop rt opts [] src ctx i results errs rules = Some (results, errs, rules)"
| "concat_loop rt opts (s # rest) src ctx i results errs rules =
     (let rules' = rules @ [rule_or_unknown s] in
      case execute s src ctx of
        None \<Rightarrow> None
      | Some (Inr result) \<Rightarrow>
          if success result \<and> \<not> isEmpty (data result) then
            concat_loop rt opts rest src ctx (Suc i)
              (results @ [processDataForConcat rt (data result) result]) errs rules'
          else if \<not> ignoreEmpty opts then
            concat_loop rt opts rest src ctx (Suc i) (results @ [[]])
              (errs @ [\<lparr> a_rule = rule_or_unknown s, a_error = ''empty result'', a_index = i \<rparr>])
              rules'
          else
            concat_loop rt opts rest src ctx (Suc i) results
              (errs @ [\<lparr> a_rule = rule_or_unknown s, a_error = ''empty result (ignored)'',
                         a_index = i \<rparr>])
              rules'
      | Some (Inl e) \<Rightarrow>
          concat_loop rt opts rest src ctx (Suc i)
            (if \<not> ignoreEmpty opts then results @ [[]] else results)
            (errs @ [\<lparr> a_rule = rule_or_unknown s, a_error = message e, a_index = i \<rparr>])
            rules')"

definition concatOperator ::
  "runtime \<Rightarrow> options \<Rightarrow> sel list \<Rightarrow> jsval \<Rightarrow> jsval \<Rightarrow> outcome option" where
  "concatOperator rt opts selectors src ctx =
     (case concat_loop rt opts selectors src ctx 0 [] [] [] of
        None \<Rightarrow> None
      | Some (results, errs, rules) \<Rightarrow>
          (let finalResult = join (separator opts) results in
           Some ((mk_outcome (\<not> isEmpty (JStr finalResult)) (JStr finalResult)
                    (join '' && '' rules) ''concat'')
                  \<lparr> errors := (if errs \<noteq> [] then Some errs else None),
                    processedCount := Some (length results) \<rparr>)))"

subsection \<open>Splitting a concatenation rule\<close>

text \<open>
  \<open>parseConcatRule\<close> scans the rule with two global regular expressions,
  \<^verbatim>\<open>"([^"\\]|\\.)*"|'([^'\\]|\\.)*'|&&\<close> and the same with \<^verbatim>\<open> && \<close> as last alternative.
  \<open>string_body q cs\<close> matches \<^verbatim>\<open>([^q\\]|\\.)*q\<close> at the start of \<open>cs\<close> and gives the number
  of characters matched; the dot does not match a line terminator.
\<close>

definition is_line_terminator :: "char \<Rightarrow> bool" where
  "is_line_terminator c = (c = CHR 0x0A \<or> c = CHR 0x0D)"

fun string_body :: "char \<Rightarrow> string \<Rightarrow> nat option" where
  "string_body q [] = None"
| "string_body q [c] = (if c = q then Some 1 else None)"
| "string_body q (c # d # ds) =
     (if c = q then Some 1
      else if c = CHR 0x5C then
        (if is_line_terminator d then None else map_option (\<lambda>n. n + 2) (string_body q ds))
      else map_option Suc (string_body q (d # ds)))"

definition literal_at :: "string \<Rightarrow> nat option" where
  "literal_at s =
     (case s of [] \<Rightarrow> None
      | c # cs \<Rightarrow> if c = CHR 0x22 \<or> c = CHR 0x27 then map_option Suc (string_body c cs) else None)"

text \<open>A match of the regular expression at the start of the text: its length, and whether
  it is the operator alternative (as opposed to a string literal).\<close>

definition token_at :: "string \<Rightarrow> string \<Rightarrow> (nat \<times> bool) option" where
  "token_at operator s =
     (case literal_at s of
        Some n \<Rightarrow> Some (n, False)
      | None \<Rightarrow> if startsWith operator s then Some (length operator, True) else None)"

definition leftSpaces :: "string \<Rightarrow> nat \<Rightarrow> nat" where
  \<comment> \<open>\<open>for (i = andIndex - 1; i >= 0 && ruleString[i] === ' '; i--) leftSpaces++\<close>\<close>
  "leftSpaces s andIndex = length (takeWhile (\<lambda>c. c = CHR 0x20) (rev (take andIndex s)))"

definition rightSpaces :: "string \<Rightarrow> nat \<Rightarrow> nat" where
  \<comment> \<open>\<open>for (i = afterAnd; i < length && ruleString[i] === ' '; i++) rightSpaces++\<close>\<close>
  "rightSpaces s afterAnd = length (takeWhile (\<lambda>c. c = CHR 0x20) (drop afterAnd s))"

text \<open>
  Phase one, the loop \<open>while ((m = checkRE.exec(ruleString)) !== null)\<close>. The scan is at
  index \<open>i\<close> of \<open>s\<close> with \<open>rest\<close> the text from there on; \<open>k\<close> counts the characters of the
  last match that are still to be passed over. The result is \<open>False\<close> when the loop throws.
\<close>

fun check_scan :: "string \<Rightarrow> string \<Rightarrow> nat \<Rightarrow> nat \<Rightarrow> bool" where
  "check_scan s [] i k = True"
| "check_scan s (c # cs) i (Suc k) = check_scan s cs (Suc i) k"
| "check_scan s (c # cs) i 0 =
     (case token_at ''&&'' (c # cs) of
        None \<Rightarrow> check_scan s cs (Suc i) 0
      | Some (n, is_and) \<Rightarrow>
          if is_and then
            (let l = leftSpaces s i; r = rightSpaces s (i + 2) in
             if l = 0 \<or> r = 0 \<or> (2 \<le> l \<and> 2 \<le> r) then False
             else check_scan s cs (Suc i) (n - 1))
          else check_scan s cs (Suc i) (n - 1))"

definition ends_with_space :: "string \<Rightarrow> bool" where
  \<comment> \<open>\<open>/\s+$/.test(seg)\<close>\<close>
  "ends_with_space seg = (seg \<noteq> [] \<and> is_ws (last seg))"

definition pushSegment :: "string \<Rightarrow> string" where
  "pushSegment seg =
     (let trimmed = trim seg in
      if startsWith ''@text:'' trimmed \<and> seg \<noteq> trimmed \<and> ends_with_space seg
      then trimStart seg else trimmed)"

text \<open>
  Phase two, the loop over \<open>splitRE\<close>. \<open>cur\<close> is the text since \<open>lastIndex\<close>; the
  characters of a string literal are kept in it (\<open>keep\<close>), those of a delimiter are not.
  \<open>push\<close> is applied to every segment; the result is the \<open>rules\<close> array and
  \<open>hasDelimiter\<close>.
\<close>

fun split_scan ::
  "(string \<Rightarrow> string) \<Rightarrow> string \<Rightarrow> nat \<Rightarrow> bool \<Rightarrow> string \<Rightarrow> string list \<times> bool" where
  "split_scan push [] k keep cur = ([push cur], False)"
| "split_scan push (c # cs) (Suc k) keep cur =
     split_scan push cs k keep (if keep then cur @ [c] else cur)"
| "split_scan push (c # cs) 0 keep cur =
     (case token_at '' && '' (c # cs) of
        None \<Rightarrow> split_scan push cs 0 keep (cur @ [c])
      | Some (n, is_delimiter) \<Rightarrow>
          if is_delimiter then (push cur # fst (split_scan push cs (n - 1) False []), True)
          else split_scan push cs (n - 1) True (cur @ [c]))"

definition parseConcatRule :: "string \<Rightarrow> exn + string list" where
  "parseConcatRule ruleString =
     (if \<not> check_scan ruleString ruleString 0 0 then Inl (SyntaxError msg_illegal_and)
      else
        (let (rules, hasDelimiter) = split_scan pushSegment ruleString 0 False [] in
         if hasDelimiter \<and> (\<exists>seg \<in> set rules. length seg = 0)
         then Inl (SyntaxError msg_empty_segment)
         else Inr rules))"

subsection \<open>Vocabulary for statements about the splitter\<close>






section \<open>The text selectors (\<open>selectors/text.js\<close>)\<close>

text \<open>Both selectors receive a string; the \<open>catch\<close> clause around their bodies is never
  entered.\<close>

definition textSelector :: "jsval \<Rightarrow> string \<Rightarrow> outcome" where
  "textSelector src text = (let outputText = text in mk_outcome True (JStr outputText) outputText ''text'')"

text \<open>\<open>s.replace(/\\x/g, r)\<close> for a backslash-escape of two characters.\<close>

fun replace_pair :: "char \<Rightarrow> char \<Rightarrow> char \<Rightarrow> string \<Rightarrow> string" where
  "replace_pair a b r [] = []"
| "replace_pair a b r [c] = [c]"
| "replace_pair a b r (c # d # cs) =
     (if c = a \<and> d = b then r # replace_pair a b r cs else c # replace_pair a b r (d # cs))"

definition is_quoted :: "string \<Rightarrow> bool" where
  "is_quoted text =
     ((startsWith [CHR 0x22] text \<and> endsWith [CHR 0x22] text)
      \<or> (startsWith [CHR 0x27] text \<and> endsWith [CHR 0x27] text))"

definition quotedTextSelector :: "jsval \<Rightarrow> string \<Rightarrow> outcome" where
  "quotedTextSelector src quotedText =
     (let text = (if is_quoted quotedText then butlast (tl quotedText) else quotedText);
          text = replace_pair (CHR 0x5C) (CHR 0x22) (CHR 0x22) text;
          text = replace_pair (CHR 0x5C) (CHR 0x27) (CHR 0x27) text;
          text = replace_pair (CHR 0x5C) (CHR 0x5C) (CHR 0x5C) text;
          text = replace_pair (CHR 0x5C) (CHR ''n'') (CHR 0x0A) text;
          text = replace_pair (CHR 0x5C) (CHR ''t'') (CHR 0x09) text;
          text = replace_pair (CHR 0x5C) (CHR ''r'') (CHR 0x0D) text
      in mk_outcome True (JStr text) quotedText ''text'')"

section \<open>The selector adapters\<close>

text \<open>
  The structural evaluators are external: \<open>cheerio\<close> is represented by the query function
  (\<open>cheerio.load(source)\<close> followed by \<open>$(expression)\<close>, which throws on a malformed
  expression) and the accessors of a matched element; the containment, JSON, regular
  expression and script selectors are taken as they are.
\<close>

record 'el adapters =
  query :: "jsval \<Rightarrow> string \<Rightarrow> exn + 'el list"
  el_html :: "'el \<Rightarrow> jsval"
  el_text :: "'el \<Rightarrow> string"
  el_outerHTML :: "'el \<Rightarrow> jsval"
  el_attr :: "'el \<Rightarrow> string \<Rightarrow> jsval"
  cssContainsSelector :: "jsval \<Rightarrow> string \<Rightarrow> jsval \<Rightarrow> exn + outcome"
  jsonSelector :: "jsval \<Rightarrow> string \<Rightarrow> jsval \<Rightarrow> exn + outcome"
  regexSelector :: "jsval \<Rightarrow> string \<Rightarrow> jsval \<Rightarrow> exn + outcome"
  jsSelector :: "jsval \<Rightarrow> string \<Rightarrow> jsval \<Rightarrow> options \<Rightarrow> exn + outcome"

text \<open>\<open>parseCssExpression\<close>: split at the last \<open>@\<close>.\<close>

fun lastIndexOf :: "char \<Rightarrow> string \<Rightarrow> nat option" where
  "lastIndexOf a [] = None"
| "lastIndexOf a (c # cs) =
     (case lastIndexOf a cs of Some i \<Rightarrow> Some (Suc i) | None \<Rightarrow> if c = a then Some 0 else None)"

definition parseCssExpression :: "string \<Rightarrow> string \<times> string option" where
  "parseCssExpression expression =
     (case lastIndexOf (CHR ''@'') expression of
        None \<Rightarrow> (expression, None)
      | Some atIndex \<Rightarrow> (take atIndex expression, Some (drop (atIndex + 1) expression)))"

definition extractCssResult :: "'el adapters \<Rightarrow> 'el list \<Rightarrow> string option \<Rightarrow> jsval" where
  "extractCssResult ad elements attribute =
     (let value = (\<lambda>el.
            if attribute = None \<or> attribute = Some [] then el_html ad el
            else if attribute = Some ''text'' then JStr (trim (el_text ad el))
            else if attribute = Some ''html'' then el_html ad el
            else if attribute = Some ''outerHTML'' then el_outerHTML ad el
            else el_attr ad el (the attribute));
          results = filter (\<lambda>v. \<not> isEmpty v) (map value elements)
      in if length results = 1 then hd results else JArr results)"

definition cssSelector :: "'el adapters \<Rightarrow> jsval \<Rightarrow> string \<Rightarrow> exn + outcome" where
  "cssSelector ad src sel_text =
     (let (expression, attribute) = parseCssExpression sel_text in
      case query ad src expression of
        Inl e \<Rightarrow> Inl (RuleParseError (msg_css_failed @ message e) sel_text ''css'' e)
      | Inr elements \<Rightarrow>
          if length elements = 0 then Inr (mk_outcome False JNull sel_text ''css'')
          else
            (let result = extractCssResult ad elements attribute in
             Inr (mk_outcome (\<not> isEmpty result) result sel_text ''css'')))"

section \<open>The cleanup operator (\<open>operators/regex-clean.js\<close>)\<close>

definition array_join :: "string \<Rightarrow> jsval list \<Rightarrow> string" where
  "array_join sep xs =
     join sep (map (\<lambda>x. if x = JNull \<or> x = JUndefined then [] else js_String x) xs)"

fun convertToString :: "jsval \<Rightarrow> string" where
  "convertToString (JStr s) = s"
| "convertToString (JArr xs) = array_join '' '' xs"
| "convertToString JNull = []"
| "convertToString JUndefined = []"
| "convertToString v = js_String v"

definition parseCleanPattern ::
  "runtime \<Rightarrow> options \<Rightarrow> string \<Rightarrow> exn + (string \<Rightarrow> string \<Rightarrow> string)" where
  "parseCleanPattern rt opts pattern =
     (let finalFlags = flags opts;
          finalFlags = (if \<not> caseSensitive opts \<and> CHR ''i'' \<notin> set finalFlags
                        then finalFlags @ ''i'' else finalFlags);
          finalFlags = (if multiline opts \<and> CHR ''m'' \<notin> set finalFlags
                        then finalFlags @ ''m'' else finalFlags);
          finalFlags = (if dotAll opts \<and> CHR ''s'' \<notin> set finalFlags
                        then finalFlags @ ''s'' else finalFlags)
      in case RegExp rt pattern finalFlags of
           None \<Rightarrow> Inl (Error (msg_bad_regex @ pattern))
         | Some regex \<Rightarrow> Inr regex)"

definition cleanText :: "runtime \<Rightarrow> options \<Rightarrow> jsval \<Rightarrow> string \<Rightarrow> string \<Rightarrow> exn + string" where
  "cleanText rt opts input pattern replacement =
     (let text = convertToString input in
      if isEmpty (JStr text) then Inr text
      else
        (case parseCleanPattern rt opts pattern of
           Inl e \<Rightarrow> Inl e
         | Inr regex \<Rightarrow> Inr (regex text replacement)))"

definition regexCleanOperator ::
  "runtime \<Rightarrow> options \<Rightarrow> jsval \<Rightarrow> string \<Rightarrow> string \<Rightarrow> exn + outcome" where
  "regexCleanOperator rt opts text pattern replacement =
     (case cleanText rt opts text pattern replacement of
        Inr result \<Rightarrow>
          Inr (mk_outcome (\<not> isEmpty (JStr result)) (JStr result)
                 (''##'' @ pattern @ ''##'' @ replacement) ''regex-clean'')
      | Inl e \<Rightarrow>
          Inl (RuleParseError (msg_clean_failed @ message e)
                 (''##'' @ pattern @ ''##'' @ replacement) ''regex-clean'' e))"

text \<open>
  \<open>parseCleanRule\<close> matches \<^verbatim>\<open>^##(.+?)##(.*)$\<close>: the pattern is the shortest non-empty text
  that is followed by \<open>##\<close>, the replacement everything after that; no character of the
  rule may be a line terminator. \<open>lazy_pattern\<close> extends the pattern one character at a
  time.
\<close>

fun lazy_pattern :: "string \<Rightarrow> string \<Rightarrow> (string \<times> string) option" where
  "lazy_pattern pat (c # d # cs) =
     (if pat \<noteq> [] \<and> c = CHR ''#'' \<and> d = CHR ''#'' then Some (pat, cs)
      else lazy_pattern (pat @ [c]) (d # cs))"
| "lazy_pattern pat [c] = None"
| "lazy_pattern pat [] = None"

definition parseCleanRule :: "string \<Rightarrow> exn + (string \<times> string)" where
  "parseCleanRule ruleString =
     (case (if startsWith ''##'' ruleString \<and> \<not> (\<exists>c \<in> set ruleString. is_line_terminator c)
            then lazy_pattern [] (drop 2 ruleString) else None) of
        None \<Rightarrow> Inl (Error (msg_bad_clean_format @ '': '' @ ruleString))
      | Some (pattern, replacement) \<Rightarrow> Inr (pattern, replacement))"

text \<open>The loop of \<open>batchRegexCleanOperator\<close>: \<open>result\<close>, \<open>appliedRules\<close> and \<open>errors\<close>.\<close>

fun batch_loop ::
  "runtime \<Rightarrow> options \<Rightarrow> clean_rule list \<Rightarrow> nat \<Rightarrow> string \<Rightarrow> string list
    \<Rightarrow> (clean_rule \<times> string \<times> nat) list
    \<Rightarrow> string \<times> string list \<times> (clean_rule \<times> string \<times> nat) list" where
  "batch_loop rt opts [] i result applied errs = (result, applied, errs)"
| "batch_loop rt opts (r # rest) i result applied errs =
     (case (case (case r of RuleString s \<Rightarrow> parseCleanRule s | RulePair p rep \<Rightarrow> Inr (p, rep)) of
              Inl e \<Rightarrow> Inl e
            | Inr (pattern, replacement) \<Rightarrow>
                (case cleanText rt opts (JStr result) pattern replacement of
                   Inl e \<Rightarrow> Inl e
                 | Inr cleanResult \<Rightarrow>
                     Inr (cleanResult, ''##'' @ pattern @ ''##'' @ replacement))) of
        Inr (cleanResult, applied_rule) \<Rightarrow>
          batch_loop rt opts rest (Suc i) cleanResult (applied @ [applied_rule]) errs
      | Inl e \<Rightarrow>
          if stopOnError opts then (result, applied, errs @ [(r, message e, i)])
          else batch_loop rt opts rest (Suc i) result applied (errs @ [(r, message e, i)]))"

definition batchRegexCleanOperator ::
  "runtime \<Rightarrow> options \<Rightarrow> jsval \<Rightarrow> clean_rule list \<Rightarrow> outcome" where
  "batchRegexCleanOperator rt opts text cleanRules =
     (let (result, appliedRules, errs) =
            batch_loop rt opts cleanRules 0 (convertToString text) [] [] in
      (mk_outcome True (JStr result) (join '' | '' appliedRules) ''batch-regex-clean'')
        \<lparr> cleanErrors := (if errs \<noteq> [] then Some errs else None),
          appliedCount := Some (length appliedRules) \<rparr>)"

section \<open>Splitting a fallback rule (\<open>parseFallbackRule\<close> of \<open>operators/fallback.js\<close>)\<close>

text \<open>The \<open>while\<close> loop over the characters; \<open>stringChar\<close> is \<open>None\<close> outside a string
  (\<open>inString\<close> false).\<close>

fun fallback_split :: "string \<Rightarrow> string list \<Rightarrow> string \<Rightarrow> char option \<Rightarrow> string list" where
  "fallback_split [] rules current stringChar =
     (if trim current \<noteq> [] then rules @ [trim current] else rules)"
| "fallback_split [c] rules current stringChar =
     (if stringChar = None \<and> (c = CHR 0x22 \<or> c = CHR 0x27) then
        fallback_split [] rules (current @ [c]) (Some c)
      else if stringChar = Some c then fallback_split [] rules (current @ [c]) None
      else fallback_split [] rules (current @ [c]) stringChar)"
| "fallback_split (c # nextChar # cs) rules current stringChar =
     (if stringChar = None \<and> (c = CHR 0x22 \<or> c = CHR 0x27) then
        fallback_split (nextChar # cs) rules (current @ [c]) (Some c)
      else if stringChar = Some c then
        fallback_split (nextChar # cs) rules (current @ [c]) None
      else if stringChar = None \<and> c = CHR ''|'' \<and> nextChar = CHR ''|'' then
        fallback_split cs (rules @ [trim current]) [] stringChar
      else fallback_split (nextChar # cs) rules (current @ [c]) stringChar)"

definition parseFallbackRule :: "string \<Rightarrow> string list" where
  "parseFallbackRule ruleString = fallback_split ruleString [] [] None"

section \<open>The rule engine (\<open>rule-engine.js\<close>)\<close>

definition parseSingleSelector ::
  "'el adapters \<Rightarrow> options \<Rightarrow> jsval \<Rightarrow> string \<Rightarrow> jsval \<Rightarrow> exn + outcome" where
  "parseSingleSelector ad opts src r ctx =
     (let isTextSelector = startsWith ''@text:'' (trim r);
          workingRule = (if isTextSelector then r else trim r);
          trimmedRule = trim workingRule
      in
      if startsWith ''@css:'' trimmedRule then
        (let sel_text = drop 5 trimmedRule in
         if includes_str '':contains('' sel_text then cssContainsSelector ad src sel_text ctx
         else cssSelector ad src sel_text)
      else if startsWith ''@XPath:'' trimmedRule then
        Inr ((mk_outcome False JNull trimmedRule ''xpath'')
               \<lparr> error := Some ''XPath selector not implemented in this test'' \<rparr>)
      else if startsWith ''@json:'' trimmedRule then jsonSelector ad src (drop 6 trimmedRule) ctx
      else if startsWith ''@regex:'' trimmedRule then regexSelector ad src (drop 7 trimmedRule) ctx
      else if startsWith ''@js:'' trimmedRule then
        (if \<not> enableJS opts then Inl (Error msg_js_disabled)
         else jsSelector ad src (drop 4 trimmedRule) ctx opts)
      else if startsWith ''@text:'' trimmedRule then
        (let text = drop 6 workingRule in
         if is_quoted text then Inr (quotedTextSelector src text) else Inr (textSelector src text))
      else if includes_str '':contains('' trimmedRule then cssContainsSelector ad src trimmedRule ctx
      else cssSelector ad src trimmedRule)"

text \<open>
  The three operator methods of the engine call back into \<open>this.parseRule\<close> for every
  sub-rule; the callee is the parameter \<open>self\<close>.
\<close>

definition RuleEngine_parseFallbackRule ::
  "(jsval \<Rightarrow> string \<Rightarrow> jsval \<Rightarrow> outcome res) \<Rightarrow> jsval \<Rightarrow> string \<Rightarrow> jsval \<Rightarrow> outcome res" where
  "RuleEngine_parseFallbackRule self src r ctx =
     (let rules = parseFallbackRule r;
          selectors = map (\<lambda>r'. \<lparr> s_rule = r', execute = (\<lambda>src' ctx'. self src' r' ctx') \<rparr>) rules
      in map_option Inr (fallbackOperator selectors src ctx))"

definition RuleEngine_parseConcatRule ::
  "runtime \<Rightarrow> options \<Rightarrow> (jsval \<Rightarrow> string \<Rightarrow> jsval \<Rightarrow> outcome res) \<Rightarrow> jsval \<Rightarrow> string \<Rightarrow> jsval
    \<Rightarrow> outcome res" where
  "RuleEngine_parseConcatRule rt opts self src r ctx =
     (case parseConcatRule r of
        Inl e \<Rightarrow> Some (Inl e)
      | Inr rules \<Rightarrow>
          (let selectors =
                 map (\<lambda>r'. \<lparr> s_rule = r', execute = (\<lambda>src' ctx'. self src' r' ctx') \<rparr>) rules
           in map_option Inr (concatOperator rt opts selectors src ctx)))"

definition RuleEngine_parseCleanRule ::
  "runtime \<Rightarrow> 'el adapters \<Rightarrow> options \<Rightarrow> jsval \<Rightarrow> string \<Rightarrow> jsval \<Rightarrow> exn + outcome" where
  "RuleEngine_parseCleanRule rt ad opts src r ctx =
     (let parts = split_hash [] r in
      if length parts < 3 then Inl (Error msg_bad_clean_format)
      else
        (let selectorPart = parts ! 0;
             cleanRule = ''##'' @ parts ! 1 @ ''##'' @ join ''##'' (drop 2 parts)
         in case parseSingleSelector ad opts src selectorPart ctx of
              Inl e \<Rightarrow> Inl e
            | Inr selectorResult \<Rightarrow>
                if \<not> success selectorResult \<or> isEmpty (data selectorResult)
                then Inr selectorResult
                else
                  (case parseCleanRule cleanRule of
                     Inl e \<Rightarrow> Inl e
                   | Inr (pattern, replacement) \<Rightarrow>
                       regexCleanOperator rt opts (data selectorResult) pattern replacement)))"

text \<open>
  \<open>parseRule\<close>. The recursion through the sub-rules has no bound in the source; the first
  argument bounds the depth of the calls, and \<open>None\<close> is returned when it is used up.
\<close>

fun RuleEngine_parseRule ::
  "nat \<Rightarrow> runtime \<Rightarrow> 'el adapters \<Rightarrow> options \<Rightarrow> jsval \<Rightarrow> string \<Rightarrow> jsval \<Rightarrow> outcome res" where
  "RuleEngine_parseRule 0 rt ad opts src r ctx = None"
| "RuleEngine_parseRule (Suc n) rt ad opts src r ctx =
     (if r = [] then Some (Inl (Error msg_rule_empty))
      else if includes_str ''||'' r then
        RuleEngine_parseFallbackRule (RuleEngine_parseRule n rt ad opts) src r ctx
      else if includes_str ''&&'' r then
        RuleEngine_parseConcatRule rt opts (RuleEngine_parseRule n rt ad opts) src r ctx
      else if includes_str ''##'' r then Some (RuleEngine_parseCleanRule rt ad opts src r ctx)
      else Some (parseSingleSelector ad opts src r ctx))"

definition RuleEngine_parse ::
  "nat \<Rightarrow> runtime \<Rightarrow> 'el adapters \<Rightarrow> options \<Rightarrow> jsval \<Rightarrow> string \<Rightarrow> jsval \<Rightarrow> outcome res" where
  "RuleEngine_parse n rt ad opts src r ctx =
     (case RuleEngine_parseRule n rt ad opts src r ctx of
        None \<Rightarrow> None
      | Some (Inr out) \<Rightarrow> Some (Inr out)
      | Some (Inl e) \<Rightarrow> Some (Inl (RuleParseError (msg_parse_failed @ message e) r ''engine'' e)))"

text \<open>
  Sample surroundings. The runtime knows the one-character patterns and replaces every
  occurrence of the character, as \<open>new RegExp(c, 'gi')\<close> does for a digit \<open>c\<close> and a
  replacement without \<open>$\<close>; its \<open>JSON.stringify\<close> is right for the empty object, the only
  value it is applied to. On the page no element matches any selector, and \<open>cheerio\<close>
  rejects the malformed selector \<open>[\<close>.
\<close>

definition sample_runtime :: runtime where
  "sample_runtime =
     \<lparr> JSON_stringify = (\<lambda>v. ''{}''),
       RegExp = (\<lambda>pattern fl.
         if length pattern = 1
         then Some (\<lambda>text replacement.
                 concat (map (\<lambda>c. if c = hd pattern then replacement else [c]) text))
         else None) \<rparr>"

definition blank_page :: "unit adapters" where
  "blank_page =
     \<lparr> query = (\<lambda>src expression.
         if expression = ''['' then Inl (SyntaxError ''Unmatched selector: ['') else Inr []),
       el_html = (\<lambda>el. JNull), el_text = (\<lambda>el. []), el_outerHTML = (\<lambda>el. JNull),
       el_attr = (\<lambda>el a. JUndefined),
       cssContainsSelector = (\<lambda>src s ctx. Inr (mk_outcome False JNull s ''css'')),
       jsonSelector = (\<lambda>src s ctx. Inr (mk_outcome False JNull s ''json'')),
       regexSelector = (\<lambda>src s ctx. Inr (mk_outcome False JNull s ''regex'')),
       jsSelector = (\<lambda>src s ctx opts. Inr (mk_outcome False JNull s ''js'')) \<rparr>"

section \<open>The caching engine (\<open>BookSourceRuleEngine\<close>)\<close>

text \<open>
  \<open>_handleCleanRule\<close>. The selector part is evaluated by \<open>_handleSingleSelector\<close>, which
  dispatches to the external adapters and is the parameter \<open>handleSingleSelector\<close> here.
\<close>

fun clean_pairs :: "string list \<Rightarrow> clean_rule list" where
  "clean_pairs (p # r # rest) = RulePair p r # clean_pairs rest"
| "clean_pairs [p] = []"
| "clean_pairs [] = []"

definition BookSource_handleCleanRule ::
  "runtime \<Rightarrow> options \<Rightarrow> (string \<Rightarrow> jsval \<Rightarrow> jsval \<Rightarrow> exn + outcome) \<Rightarrow> string \<Rightarrow> jsval \<Rightarrow> jsval
    \<Rightarrow> exn + outcome" where
  "BookSource_handleCleanRule rt opts handleSingleSelector r src ctx =
     (let parts = split_hash [] r;
          selectorPart = hd parts;
          cleanParts = clean_pairs (tl parts);
          clean = (\<lambda>input.
            case cleanParts of
              [RulePair pattern replacement] \<Rightarrow> regexCleanOperator rt opts input pattern replacement
            | _ \<Rightarrow> Inr (batchRegexCleanOperator rt opts input cleanParts))
      in
      if selectorPart = [] then clean src
      else
        (case handleSingleSelector selectorPart src ctx of
           Inl e \<Rightarrow> Inl e
         | Inr selectorResult \<Rightarrow>
             if \<not> success selectorResult then Inr selectorResult
             else
               (case clean (data selectorResult) of
                  Inl e \<Rightarrow> Inl e
                | Inr cleanResult \<Rightarrow>
                    Inr (cleanResult \<lparr> rule := r, originalData := Some (data selectorResult) \<rparr>))))"

text \<open>The cache is a JavaScript \<open>Map\<close>: an association list in insertion order.\<close>

record cache_entry =
  c_result :: outcome
  c_timestamp :: int

type_synonym cache = "(string \<times> cache_entry) list"

definition cache_delete :: "string \<Rightarrow> cache \<Rightarrow> cache" where
  "cache_delete key c = filter (\<lambda>(k, e). k \<noteq> key) c"

definition cache_set :: "string \<Rightarrow> cache_entry \<Rightarrow> cache \<Rightarrow> cache" where
  "cache_set key e c =
     (if map_of c key = None then c @ [(key, e)]
      else map (\<lambda>(k, e'). if k = key then (k, e) else (k, e')) c)"

record cache_options =
  cache_enabled :: bool
  maxSize :: nat
  ttl :: int

definition msg_undefined_substring :: string where
  \<comment> \<open>the message of the \<open>TypeError\<close> raised by \<open>undefined.substring\<close>\<close>
  "msg_undefined_substring =
     ''Cannot read properties of undefined (reading '' @ [CHR 0x27] @ ''substring'' @ [CHR 0x27] @ '')''"

text \<open>\<open>_generateCacheKey\<close>; \<open>JSON.stringify(undefined)\<close> is \<open>undefined\<close>, which has no
  \<open>substring\<close>.\<close>

definition generateCacheKey :: "runtime \<Rightarrow> string \<Rightarrow> jsval \<Rightarrow> jsval \<Rightarrow> exn + string" where
  "generateCacheKey rt r src ctx =
     (case (case src of
              JStr s \<Rightarrow> Inr (take 100 s)
            | JUndefined \<Rightarrow> Inl (TypeError msg_undefined_substring)
            | _ \<Rightarrow> Inr (take 100 (JSON_stringify rt src))) of
        Inl e \<Rightarrow> Inl e
      | Inr sourceKey \<Rightarrow>
          (let contextKey = JSON_stringify rt ctx in Inr (r @ ''|'' @ sourceKey @ ''|'' @ contextKey)))"

definition cacheResult :: "cache_options \<Rightarrow> int \<Rightarrow> string \<Rightarrow> outcome \<Rightarrow> cache \<Rightarrow> cache" where
  "cacheResult copts now key result c =
     (let c = (if maxSize copts \<le> length c
               then (case c of [] \<Rightarrow> c | (firstKey, e) # rest \<Rightarrow> cache_delete firstKey c)
               else c)
      in cache_set key \<lparr> c_result = result, c_timestamp = now \<rparr> c)"

definition failure_outcome :: "string \<Rightarrow> exn \<Rightarrow> outcome" where
  \<comment> \<open>the object built in the \<open>catch\<close> clause of \<open>parseRule\<close>\<close>
  "failure_outcome r e = (mk_outcome False JNull r ''unknown'') \<lparr> error := Some (message e) \<rparr>"

text \<open>
  \<open>parseRule\<close> of the caching engine. \<open>executeRule\<close> is the evaluation \<open>_executeRule\<close>
  (a rejected promise is \<open>Inl\<close>); \<open>now1\<close> and \<open>now2\<close> are the values of \<open>Date.now()\<close> at the
  lookup and at the insertion; the context is the argument after its default \<open>{}\<close> has
  been applied. The result is the outcome and the cache afterwards; the whole body is
  inside \<open>try\<close>, and a deletion made before an exception stays. The field \<open>stack\<close> of the
  failure record is not modelled.
\<close>

definition BookSource_parseRule ::
  "runtime \<Rightarrow> cache_options \<Rightarrow> (string \<Rightarrow> jsval \<Rightarrow> jsval \<Rightarrow> exn + outcome) \<Rightarrow> int \<Rightarrow> int \<Rightarrow> cache
    \<Rightarrow> string \<Rightarrow> jsval \<Rightarrow> jsval \<Rightarrow> outcome \<times> cache" where
  "BookSource_parseRule rt copts executeRule now1 now2 c r src ctx =
     (if r = [] then (failure_outcome r (Error msg_rule_empty), c)
      else
        (case generateCacheKey rt r src ctx of
           Inl e \<Rightarrow> (failure_outcome r e, c)
         | Inr cacheKey \<Rightarrow>
             (case (if cache_enabled copts then map_of c cacheKey else None) of
                Some cached \<Rightarrow>
                  if now1 - c_timestamp cached < ttl copts
                  then ((c_result cached) \<lparr> fromCache := True \<rparr>, c)
                  else
                    (let c = cache_delete cacheKey c in
                     case executeRule r src ctx of
                       Inl e \<Rightarrow> (failure_outcome r e, c)
                     | Inr parseResult \<Rightarrow>
                         (parseResult,
                          if cache_enabled copts \<and> success parseResult
                          then cacheResult copts now2 cacheKey parseResult c else c))
              | None \<Rightarrow>
                  (case executeRule r src ctx of
                     Inl e \<Rightarrow> (failure_outcome r e, c)
                   | Inr parseResult \<Rightarrow>
                       (parseResult,
                        if cache_enabled copts \<and> success parseResult
                        then cacheResult copts now2 cacheKey parseResult c else c)))))"




definition caching_on :: cache_options where
  "caching_on = \<lparr> cache_enabled = True, maxSize = 1000, ttl = 300000 \<rparr>"


section \<open>Further vocabulary for the statements\<close>

subsection \<open>The concatenation operator\<close>


text \<open>The rule \<^verbatim>\<open>@text:'a||b'\<close>, whose only \<open>||\<close> lies inside a quoted literal.\<close>

definition quoted_bar_rule :: string where
  "quoted_bar_rule = ''@text:'' @ [CHR 0x27] @ ''a||b'' @ [CHR 0x27]"

subsection \<open>Vocabulary for statements about outcomes\<close>

text \<open>An outcome respects the emptiness rule when empty data goes with success false.\<close>

definition respects_emptiness :: "outcome \<Rightarrow> bool" where
  "respects_emptiness out = (isEmpty (data out) \<longrightarrow> \<not> success out)"

text \<open>A stand-in for \<open>_handleSingleSelector\<close> that yields the text \<open>12\<close> for every selector.\<close>

definition selects_12 :: "string \<Rightarrow> jsval \<Rightarrow> jsval \<Rightarrow> exn + outcome" where
  "selects_12 r src ctx = Inr (mk_outcome True (JStr ''12'') r ''css'')"

subsection \<open>Vocabulary for statements about the caching engine\<close>

text \<open>The lookup of \<open>parseRule\<close> finds an entry that has not expired.\<close>

definition fresh_entry :: "cache_options \<Rightarrow> cache \<Rightarrow> string \<Rightarrow> int \<Rightarrow> bool" where
  "fresh_entry copts c key now =
     (case (if cache_enabled copts then map_of c key else None) of
        Some cached \<Rightarrow> now - c_timestamp cached < ttl copts
      | None \<Rightarrow> False)"



text \<open>The evaluation of a rule \<open>@css:selector\<close> on the blank page.\<close>

definition blank_page_rule :: "string \<Rightarrow> jsval \<Rightarrow> jsval \<Rightarrow> exn + outcome" where
  "blank_page_rule r src ctx = cssSelector blank_page src (drop 5 r)"

section \<open>Properties\<close>

subsection \<open>The fallback operator\<close>

lemma fallback_loop_all_fail:
  "\<forall>s \<in> set sels. attempt_fails (execute s src ctx) \<Longrightarrow>
   fallback_loop sels src ctx i rules errs =
     Some (Inr (rules @ map rule_or_unknown sels, errs @ failed_attempts i sels src ctx))"
proof (induction sels arbitrary: i rules errs)
  case Nil
  then show ?case by (simp add: failed_attempts_def)
next
  case (Cons s rest)
  have tl: "\<forall>x \<in> set rest. attempt_fails (execute x src ctx)" using Cons.prems by simp
  have hd: "attempt_fails (execute s src ctx)" using Cons.prems by simp
  have fa: "failed_attempts i (s # rest) src ctx =
      \<lparr> a_rule = rule_or_unknown s, a_error = attempt_text (execute s src ctx), a_index = i \<rparr>
        # failed_attempts (Suc i) rest src ctx"
  proof -
    have "[i ..< i + length (s # rest)] = i # [Suc i ..< Suc i + length rest]"
      by (simp add: upt_conv_Cons del: upt_Suc)
    then show ?thesis by (simp add: failed_attempts_def del: upt_Suc)
  qed
  show ?case
    using hd
    by (auto simp: attempt_fails_def attempt_text_def fa Cons.IH[OF tl] Let_def
          split: option.splits sum.splits)
qed

lemma fallback_loop_first_success:
  "\<forall>p \<in> set pre. attempt_fails (execute p src ctx) \<Longrightarrow>
   execute s src ctx = Some (Inr r) \<Longrightarrow> success r \<Longrightarrow> \<not> isEmpty (data r) \<Longrightarrow>
   fallback_loop (pre @ s # post) src ctx i rules errs =
     Some (Inl ((mk_outcome True (data r)
                  (join '' || '' (rules @ map rule_or_unknown pre @ [rule_or_unknown s])) ''fallback'')
                \<lparr> usedRule := Some (rule_or_unknown s), fallbackIndex := Some (i + length pre) \<rparr>))"
proof (induction pre arbitrary: i rules errs)
  case Nil
  then show ?case by (simp add: Let_def)
next
  case (Cons p pre)
  have tl: "\<forall>x \<in> set pre. attempt_fails (execute x src ctx)" using Cons.prems by simp
  have hd: "attempt_fails (execute p src ctx)" using Cons.prems by simp
  show ?case
    using hd Cons.IH[OF tl Cons.prems(2,3,4)]
    by (auto simp: attempt_fails_def Let_def split: option.splits sum.splits)
qed

text \<open>
  Claim C1. If the sub-rules \<open>pre\<close> all fail (each returns an unsuccessful or empty outcome, or
  throws) and the next sub-rule \<open>s\<close> returns a successful outcome with non-empty data, then
  \<open>fallbackOperator\<close> returns success with the data of \<open>s\<close>, whatever follows \<open>s\<close>: the
  entries to its right are not executed, so the result is the one of the chain that ends
  at \<open>s\<close>, even when an entry to the right would throw or never return.
\<close>

theorem fallback_first_success:
  assumes "\<forall>p \<in> set pre. attempt_fails (execute p src ctx)"
    and "execute s src ctx = Some (Inr r)" and "success r" and "\<not> isEmpty (data r)"
  shows "(\<exists>out. fallbackOperator (pre @ s # post) src ctx = Some out
            \<and> success out \<and> data out = data r
            \<and> usedRule out = Some (rule_or_unknown s) \<and> fallbackIndex out = Some (length pre))
         \<and> fallbackOperator (pre @ s # post) src ctx = fallbackOperator (pre @ [s]) src ctx"
  using fallback_loop_first_success[OF assms, of post 0 "[]" "[]"]
        fallback_loop_first_success[OF assms, of "[]" 0 "[]" "[]"]
  by (simp add: fallbackOperator_def mk_outcome_def)

theorem fallback_first_success_witness:
  "attempt_fails (execute sel_nomatch JNull (JObj []))
   \<and> attempt_fails (execute sel_throws JNull (JObj []))
   \<and> execute sel_title JNull (JObj []) = Some (Inr (mk_outcome True (JStr ''T'') ''T'' ''text''))
   \<and> fallbackOperator ([sel_nomatch, sel_throws] @ sel_title # [sel_hangs]) JNull (JObj [])
       = fallbackOperator ([sel_nomatch, sel_throws] @ [sel_title]) JNull (JObj [])
   \<and> map_option data (fallbackOperator [sel_nomatch, sel_throws, sel_title, sel_hangs] JNull (JObj []))
       = Some (JStr ''T'')"
proof -
  have h1: "\<forall>p \<in> set [sel_nomatch, sel_throws]. attempt_fails (execute p JNull (JObj []))"
    by (simp add: sel_nomatch_def sel_throws_def attempt_fails_def mk_outcome_def)
  have h2: "execute sel_title JNull (JObj []) = Some (Inr (mk_outcome True (JStr ''T'') ''T'' ''text''))"
    by (simp add: sel_title_def)
  have h3: "success (mk_outcome True (JStr ''T'') ''T'' ''text'')" by (simp add: mk_outcome_def)
  have h4: "\<not> isEmpty (data (mk_outcome True (JStr ''T'') ''T'' ''text''))" by (simp add: mk_outcome_def)
  from fallback_first_success[OF h1 h2 h3 h4, of "[sel_hangs]"]
  obtain out where o: "fallbackOperator ([sel_nomatch, sel_throws] @ sel_title # [sel_hangs]) JNull (JObj []) = Some out"
      and d: "data out = data (mk_outcome True (JStr ''T'') ''T'' ''text'')"
      and e: "fallbackOperator ([sel_nomatch, sel_throws] @ sel_title # [sel_hangs]) JNull (JObj [])
       = fallbackOperator ([sel_nomatch, sel_throws] @ [sel_title]) JNull (JObj [])"
    by blast
  have "map_option data (fallbackOperator [sel_nomatch, sel_throws, sel_title, sel_hangs] JNull (JObj []))
       = Some (JStr ''T'')"
    using o d by (simp add: mk_outcome_def)
  with h1 h2 e show ?thesis by simp
qed


text \<open>
  Claim C5, as amended. When every sub-rule of a non-empty chain fails, \<open>fallbackOperator\<close>
  executes the last sub-rule once more. If that call returns, the outcome has success
  false, as data the last value when it is truthy and \<open>null\<close> otherwise, and as error the
  composite message listing every failed attempt. If that call throws, the data is
  \<open>null\<close> and the error reports that exception only.
\<close>

theorem fallback_all_failed:
  assumes "selectors \<noteq> []"
    and "\<forall>s \<in> set selectors. attempt_fails (execute s src ctx)"
  shows "(\<forall>r. execute (last selectors) src ctx = Some (Inr r) \<longrightarrow>
            fallbackOperator selectors src ctx =
              Some ((mk_outcome False (if truthy (data r) then data r else JNull)
                       (join '' || '' (map rule_or_unknown selectors)) ''fallback'')
                     \<lparr> error := Some (msg_all_failed
                          @ join ''; '' (map format_attempt (failed_attempts 0 selectors src ctx))),
                       usedRule := Some (rule_or_unknown (last selectors)),
                       fallbackIndex := Some (length selectors - 1) \<rparr>))
       \<and> (\<forall>e. execute (last selectors) src ctx = Some (Inl e) \<longrightarrow>
            fallbackOperator selectors src ctx =
              Some ((mk_outcome False JNull
                       (join '' || '' (map rule_or_unknown selectors)) ''fallback'')
                     \<lparr> error := Some (msg_all_failed_last @ message e) \<rparr>))"
  using assms(1) fallback_loop_all_fail[OF assms(2), of 0 "[]" "[]"]
  by (simp add: fallbackOperator_def Let_def)

theorem fallback_all_failed_witness:
  "attempt_fails (execute sel_nomatch JNull (JObj []))
   \<and> attempt_fails (execute sel_blank JNull (JObj []))
   \<and> fallbackOperator [sel_nomatch, sel_blank] JNull (JObj []) =
       Some ((mk_outcome False JNull ''@css:.none || @text:'' ''fallback'')
              \<lparr> error := Some (msg_all_failed
                    @ ''[0] @css:.none: empty result; [1] @text:: empty result''),
                usedRule := Some ''@text:'', fallbackIndex := Some 1 \<rparr>)
   \<and> attempt_fails (execute sel_throws JNull (JObj []))
   \<and> fallbackOperator [sel_nomatch, sel_throws] JNull (JObj []) =
       Some ((mk_outcome False JNull ''@css:.none || @css:['' ''fallback'')
              \<lparr> error := Some (msg_all_failed_last @ ''boom'') \<rparr>)"
proof -
  have n1: "[sel_nomatch, sel_blank] \<noteq> []" and n2: "[sel_nomatch, sel_throws] \<noteq> []"
    by simp_all
  have f1: "\<forall>s \<in> set [sel_nomatch, sel_blank]. attempt_fails (execute s JNull (JObj []))"
    by (simp add: sel_nomatch_def sel_blank_def attempt_fails_def mk_outcome_def)
  have f2: "\<forall>s \<in> set [sel_nomatch, sel_throws]. attempt_fails (execute s JNull (JObj []))"
    by (simp add: sel_nomatch_def sel_throws_def attempt_fails_def mk_outcome_def)
  have a: "fallbackOperator [sel_nomatch, sel_blank] JNull (JObj []) =
       Some ((mk_outcome False JNull ''@css:.none || @text:'' ''fallback'')
              \<lparr> error := Some (msg_all_failed
                    @ ''[0] @css:.none: empty result; [1] @text:: empty result''),
                usedRule := Some ''@text:'', fallbackIndex := Some 1 \<rparr>)"
    using fallback_all_failed[OF n1 f1]
    by (simp add: sel_nomatch_def sel_blank_def mk_outcome_def rule_or_unknown_def
          failed_attempts_def format_attempt_def attempt_text_def digit_char_def show_nat_def)
  have b: "fallbackOperator [sel_nomatch, sel_throws] JNull (JObj []) =
       Some ((mk_outcome False JNull ''@css:.none || @css:['' ''fallback'')
              \<lparr> error := Some (msg_all_failed_last @ ''boom'') \<rparr>)"
    using fallback_all_failed[OF n2 f2]
    by (simp add: sel_nomatch_def sel_throws_def mk_outcome_def rule_or_unknown_def)
  from f1 f2 a b show ?thesis by simp
qed

text \<open>
  The claim as stated fails: the last sub-rule \<open>@text:\<close> has the empty string as its value,
  and the chain returns \<open>null\<close>; and when the last sub-rule throws, the error is not the
  composite message.
\<close>

theorem fallback_last_value_counterexample:
  "attempt_fails (execute sel_nomatch JNull (JObj []))
   \<and> attempt_fails (execute sel_blank JNull (JObj []))
   \<and> execute sel_blank JNull (JObj []) = Some (Inr (mk_outcome True (JStr []) [] ''text''))
   \<and> map_option data (fallbackOperator [sel_nomatch, sel_blank] JNull (JObj [])) = Some JNull
   \<and> map_option data (fallbackOperator [sel_nomatch, sel_blank] JNull (JObj []))
        \<noteq> Some (data (mk_outcome True (JStr []) [] ''text''))
   \<and> attempt_fails (execute sel_throws JNull (JObj []))
   \<and> map_option error (fallbackOperator [sel_nomatch, sel_throws] JNull (JObj []))
        = Some (Some (msg_all_failed_last @ ''boom''))"
  by (simp add: fallbackOperator_def sel_nomatch_def sel_blank_def sel_throws_def
        attempt_fails_def mk_outcome_def Let_def rule_or_unknown_def)

subsection \<open>Splitting a concatenation rule\<close>









subsection \<open>The concatenation operator\<close>





subsection \<open>Literal text segments\<close>

lemma trimEnd_last: "trimEnd x = [] \<or> \<not> is_ws (last (trimEnd x))"
proof (cases "dropWhile is_ws (rev x)")
  case Nil
  then show ?thesis by (simp add: trimEnd_def)
next
  case (Cons a as)
  then have "\<not> is_ws (hd (dropWhile is_ws (rev x)))"
    using hd_dropWhile[of is_ws "rev x"] by simp
  then show ?thesis using Cons by (simp add: trimEnd_def)
qed

lemma ends_with_space_not_trimmed: "ends_with_space seg \<Longrightarrow> seg \<noteq> trim seg"
  using trimEnd_last[of "trimStart seg"] by (auto simp: ends_with_space_def trim_def)

lemma pushSegment_text:
  "startsWith ''@text:'' (trim seg) \<Longrightarrow> ends_with_space seg \<Longrightarrow> pushSegment seg = trimStart seg"
  using ends_with_space_not_trimmed[of seg] by (simp add: pushSegment_def Let_def)

text \<open>
  Claim C7. A segment whose trimmed form begins with \<open>@text:\<close> and whose raw form ends in
  white space loses its leading white space only. The rule
  \<^verbatim>\<open>@text:A && @text: -  && @text:B\<close> is split into \<open>@text:A\<close>, \<open>@text: - \<close> (with its
  trailing space) and \<open>@text:B\<close>, and the engine evaluates it to \<open>A - B\<close>.
\<close>

theorem text_segment_keeps_trailing_space:
  "(startsWith ''@text:'' (trim seg) \<and> ends_with_space seg \<longrightarrow>
      pushSegment seg = trimStart seg \<and> seg = takeWhile is_ws seg @ pushSegment seg)
   \<and> parseConcatRule ''@text:A && @text: -  && @text:B'' = Inr [''@text:A'', ''@text: - '', ''@text:B'']
   \<and> (\<exists>out. RuleEngine_parseRule (Suc (Suc n)) rt ad default_options src
                ''@text:A && @text: -  && @text:B'' ctx = Some (Inr out)
           \<and> success out \<and> data out = JStr ''A - B'')"
proof -
  have seg: "startsWith ''@text:'' (trim seg) \<and> ends_with_space seg \<longrightarrow>
      pushSegment seg = trimStart seg \<and> seg = takeWhile is_ws seg @ pushSegment seg"
    using pushSegment_text[of seg] by (auto simp: trimStart_def)
  have split: "parseConcatRule ''@text:A && @text: -  && @text:B'' = Inr [''@text:A'', ''@text: - '', ''@text:B'']"
    by (simp add: parseConcatRule_def token_at_def literal_at_def leftSpaces_def rightSpaces_def
        pushSegment_def trim_def trimStart_def trimEnd_def is_ws_def Let_def ends_with_space_def)
  have a: "\<And>s c. RuleEngine_parseRule (Suc n) rt ad default_options s ''@text:A'' c
             = Some (Inr (mk_outcome True (JStr ''A'') ''A'' ''text''))"
    by (simp add: parseSingleSelector_def trim_def trimStart_def trimEnd_def is_ws_def Let_def
         is_quoted_def endsWith_def textSelector_def)
  have m: "\<And>s c. RuleEngine_parseRule (Suc n) rt ad default_options s ''@text: - '' c
             = Some (Inr (mk_outcome True (JStr '' - '') '' - '' ''text''))"
    by (simp add: parseSingleSelector_def trim_def trimStart_def trimEnd_def is_ws_def Let_def
         is_quoted_def endsWith_def textSelector_def)
  have b: "\<And>s c. RuleEngine_parseRule (Suc n) rt ad default_options s ''@text:B'' c
             = Some (Inr (mk_outcome True (JStr ''B'') ''B'' ''text''))"
    by (simp add: parseSingleSelector_def trim_def trimStart_def trimEnd_def is_ws_def Let_def
         is_quoted_def endsWith_def textSelector_def)
  have run: "\<exists>out. RuleEngine_parseRule (Suc (Suc n)) rt ad default_options src
                ''@text:A && @text: -  && @text:B'' ctx = Some (Inr out)
           \<and> success out \<and> data out = JStr ''A - B''"
  proof -
    have sep: "separator default_options = []" and ign: "ignoreEmpty default_options"
      by (simp_all add: default_options_def)
    have outer: "RuleEngine_parseRule (Suc (Suc n)) rt ad default_options src
                ''@text:A && @text: -  && @text:B'' ctx =
          RuleEngine_parseConcatRule rt default_options
            (RuleEngine_parseRule (Suc n) rt ad default_options) src
            ''@text:A && @text: -  && @text:B'' ctx"
      by simp
    show ?thesis
      unfolding outer
      by (simp add: RuleEngine_parseConcatRule_def split concatOperator_def a m b mk_outcome_def
            sep ign Let_def rule_or_unknown_def del: RuleEngine_parseRule.simps)
  qed
  from seg split run show ?thesis by blast
qed


theorem text_segment_keeps_trailing_space_witness:
  "startsWith ''@text:'' (trim '' @text: - '') \<and> ends_with_space '' @text: - ''
   \<and> pushSegment '' @text: - '' = ''@text: - ''
   \<and> map_option (map_sum message data)
         (RuleEngine_parseRule 2 sample_runtime blank_page default_options (JStr [])
            ''@text:A && @text: -  && @text:B'' (JObj []))
       = Some (Inr (JStr ''A - B''))"
proof -
  have h1: "startsWith ''@text:'' (trim '' @text: - '')"
    by (simp add: trim_def trimStart_def trimEnd_def is_ws_def)
  have h2: "ends_with_space '' @text: - ''"
    by (simp add: ends_with_space_def is_ws_def)
  have two: "2 = Suc (Suc 0)" by simp
  from text_segment_keeps_trailing_space[of "'' @text: - ''" 0 sample_runtime blank_page "JStr []" "JObj []"]
    h1 h2
  have p: "pushSegment '' @text: - '' = trimStart '' @text: - ''"
    and r: "\<exists>out. RuleEngine_parseRule (Suc (Suc 0)) sample_runtime blank_page default_options (JStr [])
                ''@text:A && @text: -  && @text:B'' (JObj []) = Some (Inr out)
           \<and> success out \<and> data out = JStr ''A - B''"
    by blast+
  from p have p': "pushSegment '' @text: - '' = ''@text: - ''"
    by (simp add: trimStart_def is_ws_def)
  from r have r': "map_option (map_sum message data)
         (RuleEngine_parseRule 2 sample_runtime blank_page default_options (JStr [])
            ''@text:A && @text: -  && @text:B'' (JObj []))
       = Some (Inr (JStr ''A - B''))"
    unfolding two by auto
  from h1 h2 p' r' show ?thesis by blast
qed

subsection \<open>Recursion of the rule engine\<close>

lemma fallback_split_quoted: "parseFallbackRule quoted_bar_rule = [quoted_bar_rule]"
  by (simp add: quoted_bar_rule_def parseFallbackRule_def trim_def trimStart_def trimEnd_def
        is_ws_def)

text \<open>
  Claim C10 fails on the code. The dispatch of \<open>parseRule\<close> tests \<open>rule.includes('||')\<close>,
  the quote-aware splitter returns the rule \<^verbatim>\<open>@text:'a||b'\<close> unchanged as its only
  segment, and the fallback operator executes that segment by calling \<open>parseRule\<close> on the
  same string: no depth of calls suffices for the engine to return.
\<close>

theorem quoted_fallback_never_returns:
  "RuleEngine_parseRule n rt ad opts src quoted_bar_rule ctx = None"
proof (induction n arbitrary: src ctx)
  case 0
  show ?case by simp
next
  case (Suc n)
  have inc: "includes_str ''||'' quoted_bar_rule" by (simp add: quoted_bar_rule_def)
  have ne: "quoted_bar_rule \<noteq> []" by (simp add: quoted_bar_rule_def)
  have step: "RuleEngine_parseRule (Suc n) rt ad opts src quoted_bar_rule ctx
      = RuleEngine_parseFallbackRule (RuleEngine_parseRule n rt ad opts) src quoted_bar_rule ctx"
    using inc ne by simp
  show ?case
    unfolding step RuleEngine_parseFallbackRule_def fallback_split_quoted
    by (simp add: fallbackOperator_def Suc.IH Let_def)
qed

theorem quoted_fallback_never_returns_witness:
  "RuleEngine_parseRule 7 sample_runtime blank_page default_options (JStr []) quoted_bar_rule
     (JObj []) = None
   \<and> includes_str ''||'' quoted_bar_rule
   \<and> parseFallbackRule quoted_bar_rule = [quoted_bar_rule]"
proof -
  have inc: "includes_str ''||'' quoted_bar_rule" by (simp add: quoted_bar_rule_def)
  from quoted_fallback_never_returns[of 7 sample_runtime blank_page default_options "JStr []" "JObj []"]
    fallback_split_quoted inc
  show ?thesis by simp
qed

subsection \<open>Chained cleanup\<close>

lemma split_chain: "split_hash [] ''@text:12##1##x##2##y'' = [''@text:12'', ''1'', ''x'', ''2'', ''y'']"
  by simp

lemma select_text_12:
  "parseSingleSelector ad opts src ''@text:12'' ctx = Inr (mk_outcome True (JStr ''12'') ''12'' ''text'')"
  by (simp add: parseSingleSelector_def trim_def trimStart_def trimEnd_def is_ws_def Let_def
       is_quoted_def endsWith_def textSelector_def)

lemma clean_rule_rest: "parseCleanRule ''##1##x##2##y'' = Inr (''1'', ''x##2##y'')"
  by (simp add: parseCleanRule_def is_line_terminator_def)

text \<open>
  Claim C3 fails on the rule engine. \<open>RuleEngine.parseCleanRule\<close> joins everything after
  the second \<open>##\<close> back together and hands it to the cleanup operator as the replacement
  of one replace: on \<open>@text:12##1##x##2##y\<close> the pattern \<open>1\<close> is replaced by \<open>x##2##y\<close>, giving
  \<open>x##2##y2\<close>. The caching engine's \<open>_handleCleanRule\<close> applies the two steps in turn and
  gives \<open>xy\<close> on the same chain, which is what the claim says.
\<close>

theorem clean_chain_is_one_replace:
  "RuleEngine_parseCleanRule rt ad opts src ''@text:12##1##x##2##y'' ctx
     = regexCleanOperator rt opts (JStr ''12'') ''1'' ''x##2##y''
   \<and> map_sum message data
         (RuleEngine_parseCleanRule sample_runtime ad default_options src ''@text:12##1##x##2##y'' ctx)
       = Inr (JStr ''x##2##y2'')
   \<and> map_sum message data
         (BookSource_handleCleanRule sample_runtime default_options selects_12 ''X##1##x##2##y'' src ctx)
       = Inr (JStr ''xy'')"
proof -
  have one: "RuleEngine_parseCleanRule rt ad opts src ''@text:12##1##x##2##y'' ctx
     = regexCleanOperator rt opts (JStr ''12'') ''1'' ''x##2##y''" for rt opts
    unfolding RuleEngine_parseCleanRule_def split_chain
    by (simp add: select_text_12 clean_rule_rest mk_outcome_def Let_def)
  have fl: "flags default_options = ''g''" "caseSensitive default_options = False"
    "multiline default_options = False" "dotAll default_options = False"
    "stopOnError default_options = False"
    by (simp_all add: default_options_def)
  have c1: "cleanText sample_runtime default_options (JStr ''12'') ''1'' r = Inr (r @ ''2'')" for r
    by (simp add: cleanText_def parseCleanPattern_def fl sample_runtime_def Let_def)
  have c2: "cleanText sample_runtime default_options (JStr ''x2'') ''2'' ''y'' = Inr ''xy''"
    by (simp add: cleanText_def parseCleanPattern_def fl sample_runtime_def Let_def)
  have two: "map_sum message data
         (RuleEngine_parseCleanRule sample_runtime ad default_options src ''@text:12##1##x##2##y'' ctx)
       = Inr (JStr ''x##2##y2'')"
    unfolding one by (simp add: regexCleanOperator_def c1 mk_outcome_def)
  have three: "map_sum message data
         (BookSource_handleCleanRule sample_runtime default_options selects_12 ''X##1##x##2##y'' src ctx)
       = Inr (JStr ''xy'')"
    using c1[of "''x''"]
    by (simp add: BookSource_handleCleanRule_def selects_12_def batchRegexCleanOperator_def
          c2 fl mk_outcome_def Let_def)
  from one two three show ?thesis by blast
qed

theorem clean_chain_is_one_replace_witness:
  "map_sum message data
     (RuleEngine_parseCleanRule sample_runtime blank_page default_options (JStr [])
        ''@text:12##1##x##2##y'' (JObj []))
     = Inr (JStr ''x##2##y2'')
   \<and> JStr ''x##2##y2'' \<noteq> JStr ''xy''"
proof -
  from clean_chain_is_one_replace[of sample_runtime blank_page default_options "JStr []" "JObj []"]
  have "map_sum message data
     (RuleEngine_parseCleanRule sample_runtime blank_page default_options (JStr [])
        ''@text:12##1##x##2##y'' (JObj []))
     = Inr (JStr ''x##2##y2'')"
    by blast
  then show ?thesis by simp
qed

subsection \<open>Success and emptiness\<close>

lemma fallback_loop_early_return:
  "fallback_loop sels src ctx i rules errs = Some (Inl out) \<Longrightarrow> success out \<and> \<not> isEmpty (data out)"
proof (induction sels arbitrary: i rules errs)
  case Nil
  then show ?case by simp
next
  case (Cons s rest)
  then show ?case
    by (auto simp: Let_def mk_outcome_def split: option.splits sum.splits if_splits)
qed

text \<open>
  Claim C4, as amended. Every outcome returned by \<open>fallbackOperator\<close>, \<open>concatOperator\<close>,
  \<open>regexCleanOperator\<close> and \<open>cssSelector\<close> has success false whenever its data is empty.
\<close>

theorem operators_respect_emptiness:
  "(fallbackOperator selectors src ctx = Some out \<longrightarrow> respects_emptiness out)
   \<and> (concatOperator rt opts selectors src ctx = Some out \<longrightarrow> respects_emptiness out)
   \<and> (regexCleanOperator rt opts text pattern replacement = Inr out \<longrightarrow> respects_emptiness out)
   \<and> (cssSelector ad src sel_text = Inr out \<longrightarrow> respects_emptiness out)"
proof -
  have f: "fallbackOperator selectors src ctx = Some out \<longrightarrow> respects_emptiness out"
  proof
    assume a: "fallbackOperator selectors src ctx = Some out"
    show "respects_emptiness out"
    proof (cases "fallback_loop selectors src ctx 0 [] []")
      case None
      with a show ?thesis by (simp add: fallbackOperator_def)
    next
      case (Some v)
      show ?thesis
      proof (cases v)
        case (Inl o')
        with Some a have "o' = out" by (simp add: fallbackOperator_def)
        with fallback_loop_early_return[of selectors src ctx 0 "[]" "[]" o'] Some Inl
        show ?thesis by (simp add: respects_emptiness_def)
      next
        case (Inr p)
        with Some a have "\<not> success out"
          by (auto simp: fallbackOperator_def mk_outcome_def Let_def
                split: prod.splits if_splits option.splits sum.splits)
        then show ?thesis by (simp add: respects_emptiness_def)
      qed
    qed
  qed
  have c: "concatOperator rt opts selectors src ctx = Some out \<longrightarrow> respects_emptiness out"
    by (auto simp: concatOperator_def respects_emptiness_def mk_outcome_def Let_def
          split: option.splits prod.splits)
  have r: "regexCleanOperator rt opts text pattern replacement = Inr out \<longrightarrow> respects_emptiness out"
    by (auto simp: regexCleanOperator_def respects_emptiness_def mk_outcome_def split: sum.splits)
  have s: "cssSelector ad src sel_text = Inr out \<longrightarrow> respects_emptiness out"
    by (auto simp: cssSelector_def respects_emptiness_def mk_outcome_def Let_def
          split: sum.splits prod.splits if_splits)
  from f c r s show ?thesis by blast
qed

theorem operators_respect_emptiness_witness:
  "concatOperator sample_runtime default_options [sel_blank] JNull (JObj [])
     = Some ((mk_outcome False (JStr []) ''@text:'' ''concat'')
               \<lparr> errors := Some [\<lparr> a_rule = ''@text:'', a_error = ''empty result (ignored)'', a_index = 0 \<rparr>],
                 processedCount := Some 0 \<rparr>)
   \<and> respects_emptiness ((mk_outcome False (JStr []) ''@text:'' ''concat'')
               \<lparr> errors := Some [\<lparr> a_rule = ''@text:'', a_error = ''empty result (ignored)'', a_index = 0 \<rparr>],
                 processedCount := Some 0 \<rparr>)
   \<and> regexCleanOperator sample_runtime default_options (JStr ''1'') ''1'' []
        = Inr (mk_outcome False (JStr []) ''##1##'' ''regex-clean'')
   \<and> respects_emptiness (mk_outcome False (JStr []) ''##1##'' ''regex-clean'')
   \<and> cssSelector blank_page (JStr []) ''.none@text'' = Inr (mk_outcome False JNull ''.none@text'' ''css'')
   \<and> respects_emptiness (mk_outcome False JNull ''.none@text'' ''css'')
   \<and> fallbackOperator [sel_title] JNull (JObj [])
        = Some ((mk_outcome True (JStr ''T'') ''@text:T'' ''fallback'')
                 \<lparr> usedRule := Some ''@text:T'', fallbackIndex := Some 0 \<rparr>)
   \<and> respects_emptiness ((mk_outcome True (JStr ''T'') ''@text:T'' ''fallback'')
                 \<lparr> usedRule := Some ''@text:T'', fallbackIndex := Some 0 \<rparr>)"
proof -
  let ?c = "(mk_outcome False (JStr []) ''@text:'' ''concat'')
               \<lparr> errors := Some [\<lparr> a_rule = ''@text:'', a_error = ''empty result (ignored)'', a_index = 0 \<rparr>],
                 processedCount := Some 0 \<rparr>"
  let ?r = "mk_outcome False (JStr []) ''##1##'' ''regex-clean''"
  let ?s = "mk_outcome False JNull ''.none@text'' ''css''"
  let ?f = "(mk_outcome True (JStr ''T'') ''@text:T'' ''fallback'')
                 \<lparr> usedRule := Some ''@text:T'', fallbackIndex := Some 0 \<rparr>"
  have c: "concatOperator sample_runtime default_options [sel_blank] JNull (JObj []) = Some ?c"
    by (simp add: concatOperator_def sel_blank_def default_options_def mk_outcome_def
          rule_or_unknown_def Let_def)
  have r: "regexCleanOperator sample_runtime default_options (JStr ''1'') ''1'' [] = Inr ?r"
    by (simp add: regexCleanOperator_def cleanText_def parseCleanPattern_def default_options_def
          sample_runtime_def Let_def)
  have s: "cssSelector blank_page (JStr []) ''.none@text'' = Inr ?s"
    by (simp add: cssSelector_def parseCssExpression_def blank_page_def)
  have f: "fallbackOperator [sel_title] JNull (JObj []) = Some ?f"
    by (simp add: fallbackOperator_def sel_title_def mk_outcome_def rule_or_unknown_def Let_def)
  from operators_respect_emptiness[of "[sel_blank]" JNull "JObj []" ?c sample_runtime default_options] c
  have c': "respects_emptiness ?c" by blast
  from operators_respect_emptiness[of _ _ _ ?r sample_runtime default_options "JStr ''1''" "''1''" "[]"] r
  have r': "respects_emptiness ?r" by blast
  from operators_respect_emptiness[of _ "JStr []" _ ?s _ _ _ _ _ blank_page "''.none@text''"] s
  have s': "respects_emptiness ?s" by blast
  from operators_respect_emptiness[of "[sel_title]" JNull "JObj []" ?f] f
  have f': "respects_emptiness ?f" by blast
  from c c' r r' s s' f f' show ?thesis by blast
qed

text \<open>
  The claim as stated fails for the text selector, and so for the engine: the rule
  \<open>@text:\<close> evaluates to success true with the empty string as data. The batch cleaner
  likewise reports success on empty data.
\<close>

theorem text_selector_counterexample:
  "success (textSelector JNull []) \<and> isEmpty (data (textSelector JNull []))
   \<and> \<not> respects_emptiness (textSelector JNull [])
   \<and> RuleEngine_parse 1 sample_runtime blank_page default_options (JStr []) ''@text:'' (JObj [])
       = Some (Inr (mk_outcome True (JStr []) [] ''text''))
   \<and> success (batchRegexCleanOperator sample_runtime default_options (JStr []) [])
   \<and> isEmpty (data (batchRegexCleanOperator sample_runtime default_options (JStr []) []))"
  by (simp add: textSelector_def respects_emptiness_def mk_outcome_def RuleEngine_parse_def
        parseSingleSelector_def trim_def trimStart_def trimEnd_def is_ws_def Let_def
        is_quoted_def endsWith_def batchRegexCleanOperator_def)

subsection \<open>Failures at the entry points\<close>

text \<open>
  Claim C8, as amended. \<open>parseRule\<close> of the caching engine returns an outcome in every
  case. When no unexpired cache entry is served: if the evaluation throws, the outcome is
  the failure record with success false, data \<open>null\<close> and the exception's message as
  error; if the evaluation returns, its outcome is returned unchanged (for a selector that
  matches nothing: success false, without an error field of the engine's making). An
  empty rule and a failing key computation give the failure record too. \<open>RuleEngine.parse\<close>
  returns nothing for an exception of the evaluation: it throws a \<open>RuleParseError\<close>
  wrapping it.
\<close>

theorem engine_failure_reporting:
  "(r \<noteq> [] \<and> generateCacheKey rt r src ctx = Inr key \<and> \<not> fresh_entry copts c key now1
      \<and> executeRule r src ctx = Inl e
     \<longrightarrow> fst (BookSource_parseRule rt copts executeRule now1 now2 c r src ctx) = failure_outcome r e)
   \<and> (r \<noteq> [] \<and> generateCacheKey rt r src ctx = Inr key \<and> \<not> fresh_entry copts c key now1
      \<and> executeRule r src ctx = Inr out
     \<longrightarrow> fst (BookSource_parseRule rt copts executeRule now1 now2 c r src ctx) = out)
   \<and> (generateCacheKey rt r src ctx = Inl e \<and> r \<noteq> []
     \<longrightarrow> fst (BookSource_parseRule rt copts executeRule now1 now2 c r src ctx) = failure_outcome r e)
   \<and> fst (BookSource_parseRule rt copts executeRule now1 now2 c [] src ctx)
        = failure_outcome [] (Error msg_rule_empty)
   \<and> \<not> success (failure_outcome r e) \<and> data (failure_outcome r e) = JNull
   \<and> error (failure_outcome r e) = Some (message e)
   \<and> (RuleEngine_parseRule n rt ad opts src r ctx = Some (Inl e)
     \<longrightarrow> RuleEngine_parse n rt ad opts src r ctx
          = Some (Inl (RuleParseError (msg_parse_failed @ message e) r ''engine'' e)))"
  by (auto simp: BookSource_parseRule_def fresh_entry_def failure_outcome_def mk_outcome_def
        RuleEngine_parse_def Let_def split: option.splits sum.splits if_splits)


theorem engine_failure_reporting_witness:
  "generateCacheKey sample_runtime ''@css:['' (JStr []) (JObj []) = Inr ''@css:[||{}''
   \<and> \<not> fresh_entry caching_on [] ''@css:[||{}'' 0
   \<and> blank_page_rule ''@css:['' (JStr []) (JObj [])
        = Inl (RuleParseError (msg_css_failed @ ''Unmatched selector: ['') ''['' ''css''
                 (SyntaxError ''Unmatched selector: [''))
   \<and> fst (BookSource_parseRule sample_runtime caching_on blank_page_rule 0 0 [] ''@css:['' (JStr []) (JObj []))
        = (mk_outcome False JNull ''@css:['' ''unknown'')
            \<lparr> error := Some (msg_css_failed @ ''Unmatched selector: ['') \<rparr>
   \<and> blank_page_rule ''@css:.none@text'' (JStr []) (JObj [])
        = Inr (mk_outcome False JNull ''.none@text'' ''css'')
   \<and> fst (BookSource_parseRule sample_runtime caching_on blank_page_rule 0 0 [] ''@css:.none@text'' (JStr []) (JObj []))
        = mk_outcome False JNull ''.none@text'' ''css''
   \<and> generateCacheKey sample_runtime ''@css:p'' JUndefined (JObj []) = Inl (TypeError msg_undefined_substring)
   \<and> fst (BookSource_parseRule sample_runtime caching_on blank_page_rule 0 0 [] ''@css:p'' JUndefined (JObj []))
        = (mk_outcome False JNull ''@css:p'' ''unknown'') \<lparr> error := Some msg_undefined_substring \<rparr>
   \<and> RuleEngine_parseRule 1 sample_runtime blank_page default_options (JStr []) ''@css:['' (JObj [])
        = Some (Inl (RuleParseError (msg_css_failed @ ''Unmatched selector: ['') ''['' ''css''
                 (SyntaxError ''Unmatched selector: ['')))
   \<and> RuleEngine_parse 1 sample_runtime blank_page default_options (JStr []) ''@css:['' (JObj [])
        = Some (Inl (RuleParseError (msg_parse_failed @ msg_css_failed @ ''Unmatched selector: ['')
                    ''@css:['' ''engine''
                    (RuleParseError (msg_css_failed @ ''Unmatched selector: ['') ''['' ''css''
                       (SyntaxError ''Unmatched selector: [''))))"
proof -
  let ?e = "RuleParseError (msg_css_failed @ ''Unmatched selector: ['') ''['' ''css''
                 (SyntaxError ''Unmatched selector: ['')"
  have k1: "generateCacheKey sample_runtime ''@css:['' (JStr []) (JObj []) = Inr ''@css:[||{}''"
    by (simp add: generateCacheKey_def sample_runtime_def)
  have k2: "generateCacheKey sample_runtime ''@css:.none@text'' (JStr []) (JObj []) = Inr ''@css:.none@text||{}''"
    by (simp add: generateCacheKey_def sample_runtime_def)
  have k3: "generateCacheKey sample_runtime ''@css:p'' JUndefined (JObj []) = Inl (TypeError msg_undefined_substring)"
    by (simp add: generateCacheKey_def)
  have f1: "\<not> fresh_entry caching_on [] ''@css:[||{}'' 0"
    and f2: "\<not> fresh_entry caching_on [] ''@css:.none@text||{}'' 0"
    by (simp_all add: fresh_entry_def)
  have x1: "blank_page_rule ''@css:['' (JStr []) (JObj []) = Inl ?e"
    by (simp add: blank_page_rule_def cssSelector_def parseCssExpression_def blank_page_def)
  have x2: "blank_page_rule ''@css:.none@text'' (JStr []) (JObj [])
        = Inr (mk_outcome False JNull ''.none@text'' ''css'')"
    by (simp add: blank_page_rule_def cssSelector_def parseCssExpression_def blank_page_def)
  have n1: "''@css:['' \<noteq> []" and n2: "''@css:.none@text'' \<noteq> []" and n3: "''@css:p'' \<noteq> []"
    by simp_all
  from engine_failure_reporting[of "''@css:[''" sample_runtime "JStr []" "JObj []" "''@css:[||{}''"
      caching_on "[]" 0 blank_page_rule ?e 0] n1 k1 f1 x1
  have r1: "fst (BookSource_parseRule sample_runtime caching_on blank_page_rule 0 0 [] ''@css:['' (JStr []) (JObj []))
        = failure_outcome ''@css:['' ?e"
    by blast
  from engine_failure_reporting[of "''@css:.none@text''" sample_runtime "JStr []" "JObj []"
      "''@css:.none@text||{}''" caching_on "[]" 0 blank_page_rule _ 0
      "mk_outcome False JNull ''.none@text'' ''css''"] n2 k2 f2 x2
  have r2: "fst (BookSource_parseRule sample_runtime caching_on blank_page_rule 0 0 [] ''@css:.none@text'' (JStr []) (JObj []))
        = mk_outcome False JNull ''.none@text'' ''css''"
    by blast
  from engine_failure_reporting[of "''@css:p''" sample_runtime JUndefined "JObj []" _
      caching_on "[]" 0 blank_page_rule "TypeError msg_undefined_substring" 0] n3 k3
  have r3: "fst (BookSource_parseRule sample_runtime caching_on blank_page_rule 0 0 [] ''@css:p'' JUndefined (JObj []))
        = failure_outcome ''@css:p'' (TypeError msg_undefined_substring)"
    by blast
  have one: "1 = Suc 0" by simp
  have p: "RuleEngine_parseRule 1 sample_runtime blank_page default_options (JStr []) ''@css:['' (JObj [])
        = Some (Inl ?e)"
    unfolding one
    by (simp add: parseSingleSelector_def trim_def trimStart_def trimEnd_def is_ws_def Let_def
          cssSelector_def parseCssExpression_def blank_page_def)
  from engine_failure_reporting[of "''@css:[''" sample_runtime "JStr []" "JObj []" _ _ _ _ _ ?e _ _ 1
      blank_page default_options] p
  have r4: "RuleEngine_parse 1 sample_runtime blank_page default_options (JStr []) ''@css:['' (JObj [])
        = Some (Inl (RuleParseError (msg_parse_failed @ message ?e) ''@css:['' ''engine'' ?e))"
    by blast
  from r1 have r1': "fst (BookSource_parseRule sample_runtime caching_on blank_page_rule 0 0 [] ''@css:['' (JStr []) (JObj []))
        = (mk_outcome False JNull ''@css:['' ''unknown'')
            \<lparr> error := Some (msg_css_failed @ ''Unmatched selector: ['') \<rparr>"
    by (simp add: failure_outcome_def)
  from r3 have r3': "fst (BookSource_parseRule sample_runtime caching_on blank_page_rule 0 0 [] ''@css:p'' JUndefined (JObj []))
        = (mk_outcome False JNull ''@css:p'' ''unknown'') \<lparr> error := Some msg_undefined_substring \<rparr>"
    by (simp add: failure_outcome_def)
  from r4 have r4': "RuleEngine_parse 1 sample_runtime blank_page default_options (JStr []) ''@css:['' (JObj [])
        = Some (Inl (RuleParseError (msg_parse_failed @ msg_css_failed @ ''Unmatched selector: ['')
                    ''@css:['' ''engine'' ?e))"
    by simp
  from k1 f1 x1 r1' x2 r2 k3 r3' p r4' show ?thesis by blast
qed

text \<open>
  The claim as stated fails for \<open>RuleEngine.parse\<close>: on the malformed selector \<open>@css:[\<close> the
  adapter error leaves the entry point as an exception, and for the selector
  \<open>@css:.none@text\<close>, which matches nothing, the outcome has no error field.
\<close>

theorem engine_throws_counterexample:
  "parseSingleSelector blank_page default_options (JStr []) ''@css:['' (JObj [])
     = Inl (RuleParseError (msg_css_failed @ ''Unmatched selector: ['') ''['' ''css''
              (SyntaxError ''Unmatched selector: [''))
   \<and> RuleEngine_parse 1 sample_runtime blank_page default_options (JStr []) ''@css:['' (JObj [])
     = Some (Inl (RuleParseError (msg_parse_failed @ msg_css_failed @ ''Unmatched selector: ['')
                    ''@css:['' ''engine''
                    (RuleParseError (msg_css_failed @ ''Unmatched selector: ['') ''['' ''css''
                       (SyntaxError ''Unmatched selector: [''))))
   \<and> RuleEngine_parse 1 sample_runtime blank_page default_options (JStr []) ''@css:.none@text'' (JObj [])
     = Some (Inr (mk_outcome False JNull ''.none@text'' ''css''))
   \<and> error (mk_outcome False JNull ''.none@text'' ''css'') = None"
proof -
  have a: "parseSingleSelector blank_page default_options (JStr []) ''@css:['' (JObj [])
     = Inl (RuleParseError (msg_css_failed @ ''Unmatched selector: ['') ''['' ''css''
              (SyntaxError ''Unmatched selector: [''))"
    by (simp add: parseSingleSelector_def trim_def trimStart_def trimEnd_def is_ws_def Let_def
          cssSelector_def parseCssExpression_def blank_page_def)
  have b: "parseSingleSelector blank_page default_options (JStr []) ''@css:.none@text'' (JObj [])
     = Inr (mk_outcome False JNull ''.none@text'' ''css'')"
    by (simp add: parseSingleSelector_def trim_def trimStart_def trimEnd_def is_ws_def Let_def
          cssSelector_def parseCssExpression_def blank_page_def)
  have one: "1 = Suc 0" by simp
  have c: "RuleEngine_parseRule 1 sample_runtime blank_page default_options (JStr []) ''@css:['' (JObj [])
     = Some (parseSingleSelector blank_page default_options (JStr []) ''@css:['' (JObj []))"
    unfolding one by simp
  have d: "RuleEngine_parseRule 1 sample_runtime blank_page default_options (JStr []) ''@css:.none@text'' (JObj [])
     = Some (parseSingleSelector blank_page default_options (JStr []) ''@css:.none@text'' (JObj []))"
    unfolding one by simp
  show ?thesis
    unfolding RuleEngine_parse_def c d a b by (simp add: mk_outcome_def)
qed

subsection \<open>The result cache\<close>












end
